theory Spec2Isabelle
  imports Main
begin

section \<open>Kubernetes API machinery consumed by the code\<close>

text \<open>
  The packages \<open>k8s.io/apimachinery\<close>, \<open>controller-runtime\<close> and the Gardener core
  types are collaborators of this repository.  Only the shapes that the functions under
  verification read or write are modelled here.

  A Go byte slice is a \<open>string\<close>; a slice or pointer that may be \<open>nil\<close> is an
  \<open>option\<close>, so \<open>Some []\<close> is the empty, non-nil slice.
\<close>

type_synonym bytes = string

subsection \<open>Field paths and field errors (\<open>k8s.io/apimachinery/pkg/util/validation/field\<close>)\<close>

type_synonym path = "string list"

definition NewPath :: "string \<Rightarrow> string list \<Rightarrow> path" where
  "NewPath name moreNames = name # moreNames"

definition Child :: "path \<Rightarrow> string \<Rightarrow> path" where
  "Child p name = p @ [name]"

text \<open>\<open>Path.String()\<close> joins the path's elements with dots.\<close>

fun String :: "path \<Rightarrow> string" where
  "String [] = []"
| "String [x] = x"
| "String (x # y # ys) = x @ ''.'' @ String (y # ys)"

datatype ErrorType = ErrorTypeRequired | ErrorTypeInvalid | ErrorTypeOther string

record field_Error =
  Type :: ErrorType
  Field :: string
  BadValue :: string
  Detail :: string

type_synonym ErrorList = "field_Error list"

definition Required :: "path \<Rightarrow> string \<Rightarrow> field_Error" where
  "Required field detail =
     \<lparr>Type = ErrorTypeRequired, Field = String field, BadValue = [], Detail = detail\<rparr>"

definition Invalid :: "path \<Rightarrow> string \<Rightarrow> string \<Rightarrow> field_Error" where
  "Invalid field val detail =
     \<lparr>Type = ErrorTypeInvalid, Field = String field, BadValue = val, Detail = detail\<rparr>"

subsection \<open>Go error values\<close>

text \<open>
  Every value of Go's \<open>error\<close> interface that the code builds or passes on:
  \<^item> \<open>FieldErr e\<close>: a \<open>*field.Error\<close> returned as an error;
  \<^item> \<open>Aggregate es\<close>: \<open>es.ToAggregate()\<close> of a non-empty \<open>field.ErrorList\<close>;
  \<^item> \<open>Errorf format args\<close>: \<open>fmt.Errorf(format, args...)\<close>, kept unformatted
    (the verbs \<open>%q\<close> and \<open>%v\<close> are rendered by the Go runtime);
  \<^item> \<open>Wrap err msg\<close>: \<open>errors.Wrap(err, msg)\<close> and \<open>errors.Wrapf\<close> with its
    \<open>%s\<close> verbs substituted;
  \<^item> \<open>External msg\<close>: an error produced by a collaborator (the decoder, the API client).
\<close>

datatype 'e fmt_arg = ArgString string | ArgError 'e

datatype error =
    FieldErr field_Error
  | Aggregate ErrorList
  | Errorf string "error fmt_arg list"
  | Wrap error string
  | External string

text \<open>\<open>ErrorList.ToAggregate()\<close> is \<open>nil\<close> on the empty list.\<close>

definition ToAggregate :: "ErrorList \<Rightarrow> error option" where
  "ToAggregate errList = (if errList = [] then None else Some (Aggregate errList))"

text \<open>A nil pointer dereference panics; a function that can do so returns a \<open>go_result\<close>.\<close>

datatype 'a go_result = Panic | Return 'a

subsection \<open>Resources\<close>

text \<open>
  \<open>runtime.RawExtension\<close> carries serialized bytes or a typed object.
  \<open>ProviderConfig\<close> embeds a \<open>RawExtension\<close>; its \<open>Object\<close> is never read here.
\<close>

record 'o RawExtension =
  Raw :: "bytes option"
  Object :: "'o option"

type_synonym ProviderConfig = "unit RawExtension"

record TypeMeta =
  APIVersion :: string
  Kind :: string

text \<open>A nil \<open>ManagedFields\<close> slice is the empty list.\<close>

record ObjectMeta =
  Name :: string
  ManagedFields :: "string list"

text \<open>Every resource is type metadata, object metadata and a specification.\<close>

record 'spec Resource =
  TypeMeta :: TypeMeta
  ObjectMeta :: ObjectMeta
  Spec :: 'spec

record Networking =
  Nodes :: "string option"

record 'w Provider =
  InfrastructureConfig :: "ProviderConfig option"
  ControlPlaneConfig :: "ProviderConfig option"
  Workers :: "'w list"

text \<open>
  The fields of a shoot's specification that the code reads.  The internal type
  \<open>core.Shoot\<close> (admission) and \<open>gardencorev1beta1.Shoot\<close> (cluster resource) agree
  on them; \<open>'w\<close> is the type of a worker pool.
\<close>

record 'w ShootSpec =
  CloudProfileName :: string
  Region :: string
  SeedName :: "string option"
  Networking :: Networking
  Provider :: "'w Provider"

type_synonym 'w Shoot = "'w ShootSpec Resource"

record CloudProfileSpec =
  ProviderConfig :: "ProviderConfig option"

type_synonym CloudProfile = "CloudProfileSpec Resource"

section \<open>Package \<open>validation\<close>: the infrastructure validators\<close>

text \<open>
  The types \<open>InfrastructureConfig\<close> (\<open>'ic\<close>), \<open>ControlPlaneConfig\<close> (\<open>'cc\<close>),
  \<open>CloudProfileConfig\<close> (\<open>'pc\<close>) and \<open>InfrastructureStatus\<close> (\<open>'st\<close>) are declared
  outside the verified sources and stay type parameters.
\<close>

definition ValidateInfrastructureConfig :: "'ic \<Rightarrow> string option \<Rightarrow> path \<Rightarrow> ErrorList" where
  "ValidateInfrastructureConfig infra nodesCIDR fldPath = (let allErrs = [] in allErrs)"

definition ValidateInfrastructureConfigUpdate :: "'ic \<Rightarrow> 'ic \<Rightarrow> path \<Rightarrow> ErrorList" where
  "ValidateInfrastructureConfigUpdate oldConfig newConfig fldPath = (let allErrs = [] in allErrs)"

definition ValidateInfrastructureConfigAgainstCloudProfile ::
    "'ic \<Rightarrow> string \<Rightarrow> 'pc \<Rightarrow> path \<Rightarrow> ErrorList" where
  "ValidateInfrastructureConfigAgainstCloudProfile infra shootRegion cloudProfileConfig fldPath =
     (let allErrs = [] in allErrs)"

section \<open>Package \<open>helper\<close>: decoding provider configurations\<close>

text \<open>
  The package holds one decoder, built once from the scheme at start-up.  It is used in
  two ways: directly, \<open>decoder.Decode(raw, nil, into)\<close>, and through
  \<open>util.Decode(decoder, raw, into)\<close> of the extensions library.  Both are collaborators;
  the record below has one function per use and target type, and the zero values
  \<open>&vsphere.InfrastructureConfig{}\<close> and \<open>&vsphere.ControlPlaneConfig{}\<close> that the
  code returns undecoded.
\<close>

record ('ic, 'cc, 'pc, 'st) scheme =
  new_InfrastructureConfig :: 'ic
  new_ControlPlaneConfig :: 'cc
  decoder_Decode_InfrastructureConfig :: "bytes option \<Rightarrow> error + 'ic"
  decoder_Decode_ControlPlaneConfig :: "bytes option \<Rightarrow> error + 'cc"
  decoder_Decode_InfrastructureStatus :: "bytes option \<Rightarrow> error + 'st"
  util_Decode_InfrastructureConfig :: "bytes option \<Rightarrow> error + 'ic"
  util_Decode_ControlPlaneConfig :: "bytes option \<Rightarrow> error + 'cc"
  util_Decode_CloudProfileConfig :: "bytes option \<Rightarrow> error + 'pc"

text \<open>\<open>string(raw)\<close> of a nil slice is the empty string.\<close>

definition string_of_bytes :: "bytes option \<Rightarrow> string" where
  "string_of_bytes raw = (case raw of None \<Rightarrow> [] | Some b \<Rightarrow> b)"

text \<open>
  The three \<open>Decode...\<close> functions are called with a pointer that their callers have
  checked against nil, so they take the \<open>ProviderConfig\<close> itself.
\<close>

definition DecodeControlPlaneConfig ::
    "('ic, 'cc, 'pc, 'st) scheme \<Rightarrow> ProviderConfig \<Rightarrow> path \<Rightarrow> error + 'cc" where
  "DecodeControlPlaneConfig decoder cp fldPath =
     (case util_Decode_ControlPlaneConfig decoder (Raw cp) of
        Inl err \<Rightarrow> Inl (FieldErr (Invalid fldPath (string_of_bytes (Raw cp)) ''cannot be decoded''))
      | Inr controlPlaneConfig \<Rightarrow> Inr controlPlaneConfig)"

definition DecodeInfrastructureConfig ::
    "('ic, 'cc, 'pc, 'st) scheme \<Rightarrow> ProviderConfig \<Rightarrow> path \<Rightarrow> error + 'ic" where
  "DecodeInfrastructureConfig decoder infra fldPath =
     (case util_Decode_InfrastructureConfig decoder (Raw infra) of
        Inl err \<Rightarrow> Inl (Errorf ''cannot be decoded'' [])
      | Inr infraConfig \<Rightarrow> Inr infraConfig)"

definition DecodeCloudProfileConfig ::
    "('ic, 'cc, 'pc, 'st) scheme \<Rightarrow> ProviderConfig \<Rightarrow> path \<Rightarrow> error + 'pc" where
  "DecodeCloudProfileConfig decoder config fldPath =
     (case util_Decode_CloudProfileConfig decoder (Raw config) of
        Inl err \<Rightarrow> Inl (FieldErr (Invalid fldPath (string_of_bytes (Raw config)) ''cannot be decoded''))
      | Inr cloudProfileConfig \<Rightarrow> Inr cloudProfileConfig)"

text \<open>
  \<open>controller.Cluster\<close>: the decoded cluster resource.  Each part is a pointer that is
  nil when the cluster resource carries no payload for it.
\<close>

record ('w, 'sd) Cluster =
  Cluster_ObjectMeta :: ObjectMeta
  Cluster_CloudProfile :: "CloudProfile option"
  Cluster_Seed :: "'sd Resource option"
  Cluster_Shoot :: "'w Shoot option"

definition GetCloudProfileConfig ::
    "('ic, 'cc, 'pc, 'st) scheme \<Rightarrow> ('pc \<Rightarrow> ErrorList) \<Rightarrow> ('w, 'sd) Cluster option
      \<Rightarrow> error + 'pc option" where
  "GetCloudProfileConfig decoder ValidateCloudProfileConfig cluster =
     (case cluster of
        None \<Rightarrow> Inr None
      | Some cl \<Rightarrow>
          (case Cluster_CloudProfile cl of
             None \<Rightarrow> Inr None
           | Some cloudProfile \<Rightarrow>
               (case ProviderConfig (Spec cloudProfile) of
                  None \<Rightarrow> Inr None
                | Some providerConfig \<Rightarrow>
                    (case Raw providerConfig of
                       None \<Rightarrow> Inr None
                     | Some raw \<Rightarrow>
                         (case DecodeCloudProfileConfig decoder providerConfig
                                 (NewPath ''cloudprofile'' [''spec'', ''providerConfig'']) of
                            Inl err \<Rightarrow>
                              Inl (Wrap err (''cloud profile '' @ Name (ObjectMeta cloudProfile)))
                          | Inr cloudProfileConfig \<Rightarrow>
                              (let errs = ValidateCloudProfileConfig cloudProfileConfig in
                               if length errs > 0 then
                                 Inl (Wrap (Aggregate errs)
                                        (''validation of providerConfig of cloud profile ''
                                           @ Name (ObjectMeta cloudProfile) @ '' failed''))
                               else Inr (Some cloudProfileConfig)))))))"

text \<open>
  \<open>GetControlPlaneConfig\<close>, \<open>GetInfrastructureConfig\<close> read \<open>cluster.Shoot.Spec\<close>
  without a nil check: a nil cluster or a cluster without shoot panics.
\<close>

definition GetControlPlaneConfig ::
    "('ic, 'cc, 'pc, 'st) scheme \<Rightarrow> ('w, 'sd) Cluster option \<Rightarrow> (error + 'cc) go_result" where
  "GetControlPlaneConfig decoder cluster =
     (case cluster of
        None \<Rightarrow> Panic
      | Some cl \<Rightarrow>
          (case Cluster_Shoot cl of
             None \<Rightarrow> Panic
           | Some shoot \<Rightarrow>
               (case ControlPlaneConfig (Provider (Spec shoot)) of
                  None \<Rightarrow> Return (Inr (new_ControlPlaneConfig decoder))
                | Some source \<Rightarrow>
                    (case decoder_Decode_ControlPlaneConfig decoder (Raw source) of
                       Inl err \<Rightarrow>
                         Return (Inl (Wrap err (''could not decode providerConfig of controlplane ''
                                    @ [CHR 0x27] @ Name (ObjectMeta shoot) @ [CHR 0x27])))
                     | Inr cpConfig \<Rightarrow> Return (Inr cpConfig)))))"

definition GetInfrastructureStatus ::
    "('ic, 'cc, 'pc, 'st) scheme \<Rightarrow> string \<Rightarrow> 'o RawExtension option \<Rightarrow> error + 'st option" where
  "GetInfrastructureStatus decoder name extension =
     (case extension of
        None \<Rightarrow> Inr None
      | Some ext \<Rightarrow>
          (case Raw ext of
             None \<Rightarrow> Inr None
           | Some raw \<Rightarrow>
               (case decoder_Decode_InfrastructureStatus decoder (Some raw) of
                  Inl err \<Rightarrow>
                    Inl (Wrap err (''could not decode infrastructureProviderStatus of controlplane ''
                           @ [CHR 0x27] @ name @ [CHR 0x27]))
                | Inr infraStatus \<Rightarrow> Inr (Some infraStatus))))"

definition GetInfrastructureConfig ::
    "('ic, 'cc, 'pc, 'st) scheme \<Rightarrow> ('w, 'sd) Cluster option \<Rightarrow> (error + 'ic) go_result" where
  "GetInfrastructureConfig decoder cluster =
     (case cluster of
        None \<Rightarrow> Panic
      | Some cl \<Rightarrow>
          (case Cluster_Shoot cl of
             None \<Rightarrow> Panic
           | Some shoot \<Rightarrow>
               (case InfrastructureConfig (Provider (Spec shoot)) of
                  None \<Rightarrow> Return (Inr (new_InfrastructureConfig decoder))
                | Some source \<Rightarrow>
                    (case Raw source of
                       None \<Rightarrow> Return (Inr (new_InfrastructureConfig decoder))
                     | Some raw \<Rightarrow>
                         (case decoder_Decode_InfrastructureConfig decoder (Some raw) of
                            Inl err \<Rightarrow> Return (Inl err)
                          | Inr config \<Rightarrow> Return (Inr config))))))"

text \<open>
  Modelled from the spec: the decoder itself is not part of the sources.  The
  specification (4.1, 8) asks of decoding that a nil or empty raw payload means "no
  configuration provided" and yields the zero-value object instead of an error.
  \<open>no_configuration_as_zero decode zero\<close> says that the function \<open>decode\<close> of the
  decoder does so.
\<close>

definition no_configuration_as_zero :: "(bytes option \<Rightarrow> error + 'a) \<Rightarrow> 'a \<Rightarrow> bool" where
  "no_configuration_as_zero decode zero \<longleftrightarrow>
     decode None = Inr zero \<and> decode (Some []) = Inr zero"

section \<open>Package \<open>validator\<close>: admission of shoots\<close>

text \<open>
  The admission code calls the package \<open>validation\<close> under the import name
  \<open>vspherevalidation\<close>.  Of its functions only the three infrastructure validators
  are part of the verified sources; the package is therefore a record of functions, and
  \<open>source_validation\<close> below puts the three known functions into it.
\<close>

record ('ic, 'cc, 'pc, 'w) vspherevalidation =
  vspherevalidation_ValidateInfrastructureConfig :: "'ic \<Rightarrow> string option \<Rightarrow> path \<Rightarrow> ErrorList"
  vspherevalidation_ValidateInfrastructureConfigUpdate :: "'ic \<Rightarrow> 'ic \<Rightarrow> path \<Rightarrow> ErrorList"
  vspherevalidation_ValidateInfrastructureConfigAgainstCloudProfile ::
    "'ic \<Rightarrow> string \<Rightarrow> 'pc \<Rightarrow> path \<Rightarrow> ErrorList"
  vspherevalidation_ValidateControlPlaneConfig :: "'cc \<Rightarrow> path \<Rightarrow> ErrorList"
  vspherevalidation_ValidateControlPlaneConfigUpdate :: "'cc \<Rightarrow> 'cc \<Rightarrow> path \<Rightarrow> ErrorList"
  vspherevalidation_ValidateControlPlaneConfigAgainstCloudProfile ::
    "'cc \<Rightarrow> string \<Rightarrow> CloudProfile \<Rightarrow> 'pc \<Rightarrow> path \<Rightarrow> ErrorList"
  vspherevalidation_ValidateNetworking :: "Networking \<Rightarrow> path \<Rightarrow> ErrorList"
  vspherevalidation_ValidateWorkers :: "'w list \<Rightarrow> path \<Rightarrow> ErrorList"
  vspherevalidation_ValidateWorkersUpdate :: "'w list \<Rightarrow> 'w list \<Rightarrow> path \<Rightarrow> ErrorList"

definition source_validation ::
    "('ic, 'cc, 'pc, 'w) vspherevalidation \<Rightarrow> ('ic, 'cc, 'pc, 'w) vspherevalidation" where
  "source_validation V =
     V\<lparr>vspherevalidation_ValidateInfrastructureConfig := ValidateInfrastructureConfig,
       vspherevalidation_ValidateInfrastructureConfigUpdate := ValidateInfrastructureConfigUpdate,
       vspherevalidation_ValidateInfrastructureConfigAgainstCloudProfile :=
         ValidateInfrastructureConfigAgainstCloudProfile\<rparr>"

record ('ic, 'cc, 'w) validationContext =
  valctx_shoot :: "'w Shoot"
  valctx_infraConfig :: 'ic
  valctx_cpConfig :: 'cc

definition specPath :: path where
  "specPath = NewPath ''spec'' []"

definition providerConfigPath :: path where
  "providerConfigPath = Child specPath ''providerConfig''"

definition nwPath :: path where
  "nwPath = Child specPath ''networking''"

definition providerPath :: path where
  "providerPath = Child specPath ''provider''"

definition infraConfigPath :: path where
  "infraConfigPath = Child providerPath ''infrastructureConfig''"

definition cpConfigPath :: path where
  "cpConfigPath = Child providerPath ''controlPlaneConfig''"

definition workersPath :: path where
  "workersPath = Child providerPath ''workers''"

text \<open>
  \<open>newValidationContext\<close> receives a decoder and does not use it: both configurations
  are decoded by the package \<open>helper\<close> with that package's own decoder, here
  \<open>helper_decoder\<close>.  The shoot is the request's object, never nil.
\<close>

definition newValidationContext ::
    "('ic, 'cc, 'pc, 'st) scheme \<Rightarrow> 'd \<Rightarrow> 'w Shoot \<Rightarrow> error + ('ic, 'cc, 'w) validationContext" where
  "newValidationContext helper_decoder decoder shoot =
     (case InfrastructureConfig (Provider (Spec shoot)) of
        None \<Rightarrow>
          Inl (FieldErr (Required infraConfigPath
                 ''infrastructureConfig must be set for OpenStack shoots''))
      | Some infra \<Rightarrow>
          (case DecodeInfrastructureConfig helper_decoder infra infraConfigPath of
             Inl err \<Rightarrow> Inl err
           | Inr infraConfig \<Rightarrow>
               (case ControlPlaneConfig (Provider (Spec shoot)) of
                  None \<Rightarrow>
                    Inl (FieldErr (Required cpConfigPath
                           ''controlPlaneConfig must be set for OpenStack shoots''))
                | Some cp \<Rightarrow>
                    (case DecodeControlPlaneConfig helper_decoder cp cpConfigPath of
                       Inl err \<Rightarrow> Inl err
                     | Inr cpConfig \<Rightarrow>
                         Inr \<lparr>valctx_shoot = shoot, valctx_infraConfig = infraConfig,
                              valctx_cpConfig = cpConfig\<rparr>))))"

text \<open>
  The validator \<open>v\<close> holds a client for the garden cluster and a decoder.  The client
  is only read: \<open>v_client v name\<close> is what \<open>Get\<close> yields for the cloud profile of that
  name, an error or the profile.  Every \<open>Get\<close> is a request to the API server; the
  list of the names requested so far is passed along and returned.
\<close>

record 'd ShootValidator =
  v_client :: "string \<Rightarrow> error + CloudProfile"
  v_decoder :: 'd

type_synonym requests = "string list"

definition validateShoot ::
    "('ic, 'cc, 'pc, 'w) vspherevalidation \<Rightarrow> ('ic, 'cc, 'w) validationContext \<Rightarrow> error option" where
  "validateShoot V context =
     (let errList = vspherevalidation_ValidateNetworking V
                      (Networking (Spec (valctx_shoot context))) nwPath in
      if length errList \<noteq> 0 then ToAggregate errList
      else
        let errList = vspherevalidation_ValidateInfrastructureConfig V (valctx_infraConfig context)
                        (Nodes (Networking (Spec (valctx_shoot context)))) infraConfigPath in
        if length errList \<noteq> 0 then ToAggregate errList
        else
          let errList = vspherevalidation_ValidateControlPlaneConfig V (valctx_cpConfig context)
                          cpConfigPath in
          if length errList \<noteq> 0 then ToAggregate errList
          else
            let errList = vspherevalidation_ValidateWorkers V
                            (Workers (Provider (Spec (valctx_shoot context)))) workersPath in
            if length errList \<noteq> 0 then ToAggregate errList
            else None)"

definition validateInfraAgainstCloudProfile ::
    "'d ShootValidator \<Rightarrow> ('ic, 'cc, 'pc, 'st) scheme \<Rightarrow> ('ic, 'cc, 'pc, 'w) vspherevalidation
      \<Rightarrow> 'w Shoot \<Rightarrow> 'ic \<Rightarrow> path \<Rightarrow> requests \<Rightarrow> error option \<times> requests" where
  "validateInfraAgainstCloudProfile v helper_decoder V shoot infraConfig fldPath reqs =
     (let reqs = reqs @ [CloudProfileName (Spec shoot)] in
      case v_client v (CloudProfileName (Spec shoot)) of
        Inl err \<Rightarrow> (Some err, reqs)
      | Inr cloudProfile \<Rightarrow>
          (case ProviderConfig (Spec cloudProfile) of
             None \<Rightarrow>
               (Some (Errorf ''providerConfig is not given for cloud profile %q''
                        [ArgString (Name (ObjectMeta cloudProfile))]), reqs)
           | Some providerConfig \<Rightarrow>
               (case DecodeCloudProfileConfig helper_decoder providerConfig providerConfigPath of
                  Inl err \<Rightarrow>
                    (Some (Errorf ''an error occurred while reading the cloud profile %q: %v''
                             [ArgString (Name (ObjectMeta cloudProfile)), ArgError err]), reqs)
                | Inr cloudProfileConfig \<Rightarrow>
                    (let errList = vspherevalidation_ValidateInfrastructureConfigAgainstCloudProfile V
                                     infraConfig (Region (Spec shoot)) cloudProfileConfig fldPath in
                     if length errList \<noteq> 0 then (ToAggregate errList, reqs)
                     else (None, reqs)))))"

definition validateCpAgainstCloudProfile ::
    "'d ShootValidator \<Rightarrow> ('ic, 'cc, 'pc, 'st) scheme \<Rightarrow> ('ic, 'cc, 'pc, 'w) vspherevalidation
      \<Rightarrow> 'w Shoot \<Rightarrow> 'cc \<Rightarrow> path \<Rightarrow> requests \<Rightarrow> error option \<times> requests" where
  "validateCpAgainstCloudProfile v helper_decoder V shoot cpConfig fldPath reqs =
     (let reqs = reqs @ [CloudProfileName (Spec shoot)] in
      case v_client v (CloudProfileName (Spec shoot)) of
        Inl err \<Rightarrow> (Some err, reqs)
      | Inr cloudProfile \<Rightarrow>
          (case ProviderConfig (Spec cloudProfile) of
             None \<Rightarrow>
               (Some (Errorf ''providerConfig is not given for cloud profile %q''
                        [ArgString (Name (ObjectMeta cloudProfile))]), reqs)
           | Some providerConfig \<Rightarrow>
               (case DecodeCloudProfileConfig helper_decoder providerConfig providerConfigPath of
                  Inl err \<Rightarrow>
                    (Some (Errorf ''an error occurred while reading the cloud profile %q: %v''
                             [ArgString (Name (ObjectMeta cloudProfile)), ArgError err]), reqs)
                | Inr cloudProfileConfig \<Rightarrow>
                    (let errList = vspherevalidation_ValidateControlPlaneConfigAgainstCloudProfile V
                                     cpConfig (Region (Spec shoot)) cloudProfile cloudProfileConfig
                                     fldPath in
                     if length errList \<noteq> 0 then (ToAggregate errList, reqs)
                     else (None, reqs)))))"

definition validateShootCreation ::
    "'d ShootValidator \<Rightarrow> ('ic, 'cc, 'pc, 'st) scheme \<Rightarrow> ('ic, 'cc, 'pc, 'w) vspherevalidation
      \<Rightarrow> 'w Shoot \<Rightarrow> requests \<Rightarrow> error option \<times> requests" where
  "validateShootCreation v helper_decoder V shoot reqs =
     (case newValidationContext helper_decoder (v_decoder v) shoot of
        Inl err \<Rightarrow> (Some err, reqs)
      | Inr valContext \<Rightarrow>
          (case validateInfraAgainstCloudProfile v helper_decoder V shoot
                  (valctx_infraConfig valContext) infraConfigPath reqs of
             (Some err, reqs) \<Rightarrow> (Some err, reqs)
           | (None, reqs) \<Rightarrow>
               (case validateCpAgainstCloudProfile v helper_decoder V shoot
                       (valctx_cpConfig valContext) cpConfigPath reqs of
                  (Some err, reqs) \<Rightarrow> (Some err, reqs)
                | (None, reqs) \<Rightarrow> (validateShoot V valContext, reqs))))"

definition validateShootUpdate ::
    "'d ShootValidator \<Rightarrow> ('ic, 'cc, 'pc, 'st) scheme \<Rightarrow> ('ic, 'cc, 'pc, 'w) vspherevalidation
      \<Rightarrow> 'w Shoot \<Rightarrow> 'w Shoot \<Rightarrow> error option" where
  "validateShootUpdate v helper_decoder V oldShoot shoot =
     (case newValidationContext helper_decoder (v_decoder v) oldShoot of
        Inl err \<Rightarrow> Some err
      | Inr oldValContext \<Rightarrow>
          (case newValidationContext helper_decoder (v_decoder v) shoot of
             Inl err \<Rightarrow> Some err
           | Inr valContext \<Rightarrow>
               (let errList = vspherevalidation_ValidateInfrastructureConfigUpdate V
                                (valctx_infraConfig oldValContext) (valctx_infraConfig valContext)
                                infraConfigPath in
                if length errList \<noteq> 0 then ToAggregate errList
                else
                  let errList = vspherevalidation_ValidateControlPlaneConfigUpdate V
                                  (valctx_cpConfig oldValContext) (valctx_cpConfig valContext)
                                  cpConfigPath in
                  if length errList \<noteq> 0 then ToAggregate errList
                  else
                    let errList = vspherevalidation_ValidateWorkersUpdate V
                                    (Workers (Provider (Spec oldShoot)))
                                    (Workers (Provider (Spec shoot))) workersPath in
                    if length errList > 0 then ToAggregate errList
                    else validateShoot V valContext)))"

subsection \<open>The validation context with a decoder that has state\<close>

text \<open>
  The decoder of the package \<open>helper\<close> is an object behind the interface
  \<open>runtime.Decoder\<close>.  Above it is a function of the bytes.  Here it is an object with
  a state of its own, \<open>'s\<close>, that a call may read and change; the two decoding
  functions and \<open>newValidationContext\<close> are the same code, with the state passed along.
\<close>

record ('s, 'ic, 'cc) decoder_object =
  call_util_Decode_InfrastructureConfig :: "bytes option \<Rightarrow> 's \<Rightarrow> (error + 'ic) \<times> 's"
  call_util_Decode_ControlPlaneConfig :: "bytes option \<Rightarrow> 's \<Rightarrow> (error + 'cc) \<times> 's"

definition run_DecodeInfrastructureConfig ::
    "('s, 'ic, 'cc) decoder_object \<Rightarrow> ProviderConfig \<Rightarrow> path \<Rightarrow> 's \<Rightarrow> (error + 'ic) \<times> 's" where
  "run_DecodeInfrastructureConfig decoder infra fldPath s =
     (case call_util_Decode_InfrastructureConfig decoder (Raw infra) s of
        (Inl err, s) \<Rightarrow> (Inl (Errorf ''cannot be decoded'' []), s)
      | (Inr infraConfig, s) \<Rightarrow> (Inr infraConfig, s))"

definition run_DecodeControlPlaneConfig ::
    "('s, 'ic, 'cc) decoder_object \<Rightarrow> ProviderConfig \<Rightarrow> path \<Rightarrow> 's \<Rightarrow> (error + 'cc) \<times> 's" where
  "run_DecodeControlPlaneConfig decoder cp fldPath s =
     (case call_util_Decode_ControlPlaneConfig decoder (Raw cp) s of
        (Inl err, s) \<Rightarrow>
          (Inl (FieldErr (Invalid fldPath (string_of_bytes (Raw cp)) ''cannot be decoded'')), s)
      | (Inr controlPlaneConfig, s) \<Rightarrow> (Inr controlPlaneConfig, s))"

definition run_newValidationContext ::
    "('s, 'ic, 'cc) decoder_object \<Rightarrow> 'd \<Rightarrow> 'w Shoot \<Rightarrow> 's
      \<Rightarrow> (error + ('ic, 'cc, 'w) validationContext) \<times> 's" where
  "run_newValidationContext helper_decoder decoder shoot s =
     (case InfrastructureConfig (Provider (Spec shoot)) of
        None \<Rightarrow>
          (Inl (FieldErr (Required infraConfigPath
                  ''infrastructureConfig must be set for OpenStack shoots'')), s)
      | Some infra \<Rightarrow>
          (case run_DecodeInfrastructureConfig helper_decoder infra infraConfigPath s of
             (Inl err, s) \<Rightarrow> (Inl err, s)
           | (Inr infraConfig, s) \<Rightarrow>
               (case ControlPlaneConfig (Provider (Spec shoot)) of
                  None \<Rightarrow>
                    (Inl (FieldErr (Required cpConfigPath
                            ''controlPlaneConfig must be set for OpenStack shoots'')), s)
                | Some cp \<Rightarrow>
                    (case run_DecodeControlPlaneConfig helper_decoder cp cpConfigPath s of
                       (Inl err, s) \<Rightarrow> (Inl err, s)
                     | (Inr cpConfig, s) \<Rightarrow>
                         (Inr \<lparr>valctx_shoot = shoot, valctx_infraConfig = infraConfig,
                               valctx_cpConfig = cpConfig\<rparr>, s)))))"


section \<open>Package \<open>extensions\<close>: the cluster resource in the seed\<close>

text \<open>
  The resource \<open>extensionsv1alpha1.Cluster\<close> embeds a cloud profile, a seed and a
  shoot as raw extensions; \<open>'sd\<close> is the specification of a seed.
\<close>

record ('w, 'sd) ClusterSpec =
  CloudProfile :: "CloudProfile RawExtension"
  Seed :: "'sd Resource RawExtension"
  Shoot :: "'w Shoot RawExtension"

type_synonym ('w, 'sd) ClusterResource = "('w, 'sd) ClusterSpec Resource"

text \<open>
  The seed's API server as the client sees it: the cluster resources stored by name,
  and for each kind of call the error with which the server answers it, if any
  (an outage, a rejected write).  A \<open>Get\<close> of an absent name is answered "not found".
\<close>

datatype api_call = ApiGet | ApiCreate | ApiUpdate

record ('w, 'sd) seed_client =
  stored :: "string \<rightharpoonup> ('w, 'sd) ClusterResource"
  failing :: "api_call \<Rightarrow> error option"

text \<open>
  \<open>controllerutil.CreateOrUpdate\<close> of controller-runtime, a collaborator: it gets the
  object by its name; if there is none it applies the mutation to the given object and
  creates it; otherwise it applies the mutation to the stored object and updates it,
  unless the mutation changed nothing.  A mutation may not rename the object.  Any
  failing call ends the operation with that call's error.
\<close>

definition mutate ::
    "(('w, 'sd) ClusterResource \<Rightarrow> error + ('w, 'sd) ClusterResource) \<Rightarrow> string
      \<Rightarrow> ('w, 'sd) ClusterResource \<Rightarrow> error + ('w, 'sd) ClusterResource" where
  "mutate f key obj =
     (case f obj of
        Inl err \<Rightarrow> Inl err
      | Inr obj' \<Rightarrow>
          if Name (ObjectMeta obj') \<noteq> key
          then Inl (Errorf ''MutateFn cannot mutate object name and/or object namespace'' [])
          else Inr obj')"

definition CreateOrUpdate ::
    "('w, 'sd) seed_client \<Rightarrow> ('w, 'sd) ClusterResource
      \<Rightarrow> (('w, 'sd) ClusterResource \<Rightarrow> error + ('w, 'sd) ClusterResource)
      \<Rightarrow> error option \<times> ('w, 'sd) seed_client" where
  "CreateOrUpdate c obj f =
     (let key = Name (ObjectMeta obj) in
      case failing c ApiGet of
        Some err \<Rightarrow> (Some err, c)
      | None \<Rightarrow>
          (case stored c key of
             None \<Rightarrow>
               (case mutate f key obj of
                  Inl err \<Rightarrow> (Some err, c)
                | Inr obj' \<Rightarrow>
                    (case failing c ApiCreate of
                       Some err \<Rightarrow> (Some err, c)
                     | None \<Rightarrow> (None, c\<lparr>stored := (stored c)(key \<mapsto> obj')\<rparr>)))
           | Some existing \<Rightarrow>
               (case mutate f key existing of
                  Inl err \<Rightarrow> (Some err, c)
                | Inr obj' \<Rightarrow>
                    if existing = obj' then (None, c)
                    else
                      (case failing c ApiUpdate of
                         Some err \<Rightarrow> (Some err, c)
                       | None \<Rightarrow> (None, c\<lparr>stored := (stored c)(key \<mapsto> obj')\<rparr>)))))"

text \<open>
  \<open>DeepCopy\<close> of a value is the value.  \<open>with_type\<close> is what each of the three copies
  undergoes: its type metadata is set and its managed fields are cleared.
  \<open>groupVersion\<close> stands for \<open>gardencorev1beta1.SchemeGroupVersion.String()\<close>.
\<close>

definition with_type :: "string \<Rightarrow> string \<Rightarrow> 'spec Resource \<Rightarrow> 'spec Resource" where
  "with_type groupVersion kind obj =
     obj\<lparr>TypeMeta := \<lparr>APIVersion = groupVersion, Kind = kind\<rparr>,
         ObjectMeta := (ObjectMeta obj)\<lparr>ManagedFields := []\<rparr>\<rparr>"

text \<open>The zero value of a raw extension, and the cluster object the function starts from.\<close>

definition no_extension :: "'o RawExtension" where
  "no_extension = \<lparr>Raw = None, Object = None\<rparr>"

definition new_Cluster :: "string \<Rightarrow> ('w, 'sd) ClusterResource" where
  "new_Cluster clusterName =
     \<lparr>TypeMeta = \<lparr>APIVersion = [], Kind = []\<rparr>,
      ObjectMeta = \<lparr>Name = clusterName, ManagedFields = []\<rparr>,
      Spec = \<lparr>CloudProfile = no_extension, Seed = no_extension, Shoot = no_extension\<rparr>\<rparr>"

text \<open>
  The function reads \<open>shoot.Spec.SeedName\<close> first, so a nil shoot panics.  The
  function literal passed to \<open>CreateOrUpdate\<close> is \<open>sync_mutation\<close>.
\<close>

definition sync_mutation ::
    "CloudProfile option \<Rightarrow> 'sd Resource option \<Rightarrow> 'w Shoot option
      \<Rightarrow> ('w, 'sd) ClusterResource \<Rightarrow> error + ('w, 'sd) ClusterResource" where
  "sync_mutation cloudProfileObj seedObj shootObj cluster =
     (let cluster = (case cloudProfileObj of
                       None \<Rightarrow> cluster
                     | Some obj \<Rightarrow>
                         cluster\<lparr>Spec := (Spec cluster)\<lparr>CloudProfile := \<lparr>Raw = None, Object = Some obj\<rparr>\<rparr>\<rparr>);
          cluster = (case seedObj of
                       None \<Rightarrow> cluster
                     | Some obj \<Rightarrow>
                         cluster\<lparr>Spec := (Spec cluster)\<lparr>Seed := \<lparr>Raw = None, Object = Some obj\<rparr>\<rparr>\<rparr>);
          cluster = (case shootObj of
                       None \<Rightarrow> cluster
                     | Some obj \<Rightarrow>
                         cluster\<lparr>Spec := (Spec cluster)\<lparr>Shoot := \<lparr>Raw = None, Object = Some obj\<rparr>\<rparr>\<rparr>)
      in Inr cluster)"

definition SyncClusterResourceToSeed ::
    "string \<Rightarrow> ('w, 'sd) seed_client \<Rightarrow> string \<Rightarrow> 'w Shoot option \<Rightarrow> CloudProfile option
      \<Rightarrow> 'sd Resource option \<Rightarrow> (error option \<times> ('w, 'sd) seed_client) go_result" where
  "SyncClusterResourceToSeed groupVersion c clusterName shoot cloudProfile seed =
     (case shoot of
        None \<Rightarrow> Panic
      | Some sh \<Rightarrow>
          if SeedName (Spec sh) = None then Return (None, c)
          else
            let cluster = new_Cluster clusterName;
                cloudProfileObj = (case cloudProfile of
                                     None \<Rightarrow> None
                                   | Some obj \<Rightarrow> Some (with_type groupVersion ''CloudProfile'' obj));
                seedObj = (case seed of
                             None \<Rightarrow> None
                           | Some obj \<Rightarrow> Some (with_type groupVersion ''Seed'' obj));
                shootObj = (case shoot of
                              None \<Rightarrow> None
                            | Some obj \<Rightarrow> Some (with_type groupVersion ''Shoot'' obj))
            in Return (CreateOrUpdate c cluster (sync_mutation cloudProfileObj seedObj shootObj)))"

section \<open>Sample collaborators and requests\<close>

text \<open>
  Concrete instances on which the properties below are evaluated.  Configurations are
  kept as their text; the sample decoder accepts exactly the texts that open a JSON
  object and rejects absent or empty data.
\<close>

definition sample_decode :: "bytes option \<Rightarrow> error + string" where
  "sample_decode raw =
     (case raw of
        None \<Rightarrow> Inl (External ''no data'')
      | Some [] \<Rightarrow> Inl (External ''unexpected end of input'')
      | Some (c # cs) \<Rightarrow> if c = CHR ''{'' then Inr (c # cs) else Inl (External ''malformed''))"

definition sample_scheme :: "(string, string, string, string) scheme" where
  "sample_scheme =
     \<lparr>new_InfrastructureConfig = [],
      new_ControlPlaneConfig = [],
      decoder_Decode_InfrastructureConfig = sample_decode,
      decoder_Decode_ControlPlaneConfig = sample_decode,
      decoder_Decode_InfrastructureStatus = sample_decode,
      util_Decode_InfrastructureConfig = sample_decode,
      util_Decode_ControlPlaneConfig = sample_decode,
      util_Decode_CloudProfileConfig = sample_decode\<rparr>"

definition raw_config :: "bytes \<Rightarrow> ProviderConfig" where
  "raw_config b = \<lparr>Raw = Some b, Object = None\<rparr>"

definition sample_shoot ::
    "ProviderConfig option \<Rightarrow> ProviderConfig option \<Rightarrow> string option \<Rightarrow> nat Shoot" where
  "sample_shoot infra cp seedName =
     \<lparr>TypeMeta = \<lparr>APIVersion = [], Kind = []\<rparr>,
      ObjectMeta = \<lparr>Name = ''shoot1'', ManagedFields = [''kubectl'']\<rparr>,
      Spec = \<lparr>CloudProfileName = ''vsphere'', Region = ''region1'', SeedName = seedName,
              Networking = \<lparr>Nodes = Some ''10.250.0.0/16''\<rparr>,
              Provider = \<lparr>InfrastructureConfig = infra, ControlPlaneConfig = cp,
                          Workers = []\<rparr>\<rparr>\<rparr>"

definition sample_profile :: "ProviderConfig option \<Rightarrow> CloudProfile" where
  "sample_profile providerConfig =
     \<lparr>TypeMeta = \<lparr>APIVersion = [], Kind = []\<rparr>,
      ObjectMeta = \<lparr>Name = ''vsphere'', ManagedFields = []\<rparr>,
      Spec = \<lparr>ProviderConfig = providerConfig\<rparr>\<rparr>"

text \<open>A validator whose store holds one cloud profile, named \<open>vsphere\<close>.\<close>

definition sample_validator :: "ProviderConfig option \<Rightarrow> unit ShootValidator" where
  "sample_validator providerConfig =
     \<lparr>v_client = (\<lambda>name. if name = ''vsphere'' then Inr (sample_profile providerConfig)
                          else Inl (External ''not found'')),
      v_decoder = ()\<rparr>"

text \<open>
  A validation package that rejects every change of a configuration, a control plane
  configuration that differs from the profile's, and a shoot without workers.
\<close>

definition sample_validation :: "(string, string, string, nat) vspherevalidation" where
  "sample_validation =
     \<lparr>vspherevalidation_ValidateInfrastructureConfig = (\<lambda>infra nodesCIDR fldPath. []),
      vspherevalidation_ValidateInfrastructureConfigUpdate =
        (\<lambda>oldConfig newConfig fldPath.
           if oldConfig = newConfig then [] else [Invalid fldPath newConfig ''field is immutable'']),
      vspherevalidation_ValidateInfrastructureConfigAgainstCloudProfile =
        (\<lambda>infra shootRegion cloudProfileConfig fldPath. []),
      vspherevalidation_ValidateControlPlaneConfig = (\<lambda>cp fldPath. []),
      vspherevalidation_ValidateControlPlaneConfigUpdate =
        (\<lambda>oldConfig newConfig fldPath.
           if oldConfig = newConfig then [] else [Invalid fldPath newConfig ''field is immutable'']),
      vspherevalidation_ValidateControlPlaneConfigAgainstCloudProfile =
        (\<lambda>cp shootRegion cloudProfile cloudProfileConfig fldPath.
           if cp = cloudProfileConfig then [] else [Invalid fldPath cp ''not offered by the profile'']),
      vspherevalidation_ValidateNetworking = (\<lambda>networking fldPath. []),
      vspherevalidation_ValidateWorkers =
        (\<lambda>workers fldPath. if workers = [] then [Required fldPath ''at least one worker pool''] else []),
      vspherevalidation_ValidateWorkersUpdate = (\<lambda>oldWorkers newWorkers fldPath. [])\<rparr>"

text \<open>A seed whose API server stores no cluster resource and answers every call.\<close>

definition empty_seed :: "(nat, unit) seed_client" where
  "empty_seed = \<lparr>stored = Map.empty, failing = (\<lambda>call. None)\<rparr>"

text \<open>A seed that stores the cluster resource \<open>c1\<close>, holding a cloud profile.\<close>

definition seed_with_cluster :: "(nat, unit) seed_client" where
  "seed_with_cluster =
     \<lparr>stored = [''c1'' \<mapsto>
                  \<lparr>TypeMeta = \<lparr>APIVersion = [], Kind = []\<rparr>,
                   ObjectMeta = \<lparr>Name = ''c1'', ManagedFields = []\<rparr>,
                   Spec = \<lparr>CloudProfile = \<lparr>Raw = None, Object = Some (sample_profile None)\<rparr>,
                           Seed = no_extension, Shoot = no_extension\<rparr>\<rparr>],
      failing = (\<lambda>call. None)\<rparr>"

text \<open>A decoded cluster, as the controllers receive it.\<close>

definition sample_cluster :: "CloudProfile option \<Rightarrow> nat Shoot option \<Rightarrow> (nat, unit) Cluster" where
  "sample_cluster cloudProfile shoot =
     \<lparr>Cluster_ObjectMeta = \<lparr>Name = ''shoot--garden--c1'', ManagedFields = []\<rparr>,
      Cluster_CloudProfile = cloudProfile, Cluster_Seed = None, Cluster_Shoot = shoot\<rparr>"

text \<open>A validator of cloud profile configurations that asks for a region.\<close>

definition sample_ValidateCloudProfileConfig :: "string \<Rightarrow> ErrorList" where
  "sample_ValidateCloudProfileConfig cloudProfileConfig =
     (if cloudProfileConfig = ''{}'' then [Required [''regions''] ''at least one region''] else [])"

text \<open>
  A decoder that follows the specification on absent data: nil and empty bytes decode
  to the zero value, the empty text.
\<close>

definition lenient_decode :: "bytes option \<Rightarrow> error + string" where
  "lenient_decode raw =
     (case raw of
        None \<Rightarrow> Inr []
      | Some [] \<Rightarrow> Inr []
      | Some (c # cs) \<Rightarrow> if c = CHR ''{'' then Inr (c # cs) else Inl (External ''malformed''))"

definition lenient_scheme :: "(string, string, string, string) scheme" where
  "lenient_scheme =
     \<lparr>new_InfrastructureConfig = [],
      new_ControlPlaneConfig = [],
      decoder_Decode_InfrastructureConfig = lenient_decode,
      decoder_Decode_ControlPlaneConfig = lenient_decode,
      decoder_Decode_InfrastructureStatus = lenient_decode,
      util_Decode_InfrastructureConfig = lenient_decode,
      util_Decode_ControlPlaneConfig = lenient_decode,
      util_Decode_CloudProfileConfig = lenient_decode\<rparr>"

text \<open>A decoder that accepts its first input only.\<close>

definition worn_decoder :: "(nat, string, string) decoder_object" where
  "worn_decoder =
     \<lparr>call_util_Decode_InfrastructureConfig =
        (\<lambda>raw n. (if n = 0 then sample_decode raw else Inl (External ''worn out''), Suc n)),
      call_util_Decode_ControlPlaneConfig =
        (\<lambda>raw n. (if n = 0 then sample_decode raw else Inl (External ''worn out''), Suc n))\<rparr>"

text \<open>The error kinds of the specification, as far as an error value shows them.\<close>

fun is_RequiredFieldError :: "error \<Rightarrow> bool" where
  "is_RequiredFieldError (FieldErr e) = (Type e = ErrorTypeRequired)"
| "is_RequiredFieldError _ = False"

section \<open>Properties\<close>

subsection \<open>Rendered field paths\<close>

lemma String_infraConfigPath: "String infraConfigPath = ''spec.provider.infrastructureConfig''"
  by (simp add: infraConfigPath_def providerPath_def specPath_def Child_def NewPath_def)

lemma String_cpConfigPath: "String cpConfigPath = ''spec.provider.controlPlaneConfig''"
  by (simp add: cpConfigPath_def providerPath_def specPath_def Child_def NewPath_def)

text \<open>The definitions of the sample collaborators, for evaluation.\<close>

lemmas sample_defs = sample_shoot_def sample_scheme_def sample_decode_def raw_config_def
  sample_validator_def sample_profile_def sample_validation_def

subsection \<open>The infrastructure validators\<close>

text \<open>
  C6.  For every infrastructure configuration, nodes CIDR, old and new configuration,
  shoot region, cloud profile configuration and field path, the three infrastructure
  validators return the empty error list.
\<close>

theorem infrastructure_validators_return_no_errors:
  "ValidateInfrastructureConfig infra nodesCIDR fldPath = []
   \<and> ValidateInfrastructureConfigUpdate oldConfig newConfig fldPath = []
   \<and> ValidateInfrastructureConfigAgainstCloudProfile infra shootRegion cloudProfileConfig fldPath = []"
  by (simp add: ValidateInfrastructureConfig_def ValidateInfrastructureConfigUpdate_def
      ValidateInfrastructureConfigAgainstCloudProfile_def)

subsection \<open>Building the validation context\<close>

text \<open>
  C1, as the code has it.  A shoot without infrastructure configuration is refused with
  a required-field error at \<open>spec.provider.infrastructureConfig\<close>, whatever the
  decoder is.  A shoot without control plane configuration is refused with a
  required-field error at \<open>spec.provider.controlPlaneConfig\<close> when its infrastructure
  configuration is present and decodes: the infrastructure configuration is decoded
  before the control plane configuration is looked at, and when it does not decode the
  result is the decoding error.
\<close>

theorem newValidationContext_required_fields:
  "(InfrastructureConfig (Provider (Spec shoot)) = None \<longrightarrow>
      newValidationContext helper_decoder decoder shoot =
        Inl (FieldErr \<lparr>Type = ErrorTypeRequired, Field = ''spec.provider.infrastructureConfig'',
                       BadValue = [],
                       Detail = ''infrastructureConfig must be set for OpenStack shoots''\<rparr>))
   \<and> (InfrastructureConfig (Provider (Spec shoot)) = Some infra
        \<and> util_Decode_InfrastructureConfig helper_decoder (Raw infra) = Inr infraConfig
        \<and> ControlPlaneConfig (Provider (Spec shoot)) = None \<longrightarrow>
      newValidationContext helper_decoder decoder shoot =
        Inl (FieldErr \<lparr>Type = ErrorTypeRequired, Field = ''spec.provider.controlPlaneConfig'',
                       BadValue = [],
                       Detail = ''controlPlaneConfig must be set for OpenStack shoots''\<rparr>))
   \<and> (InfrastructureConfig (Provider (Spec shoot)) = Some infra
        \<and> util_Decode_InfrastructureConfig helper_decoder (Raw infra) = Inl err \<longrightarrow>
      newValidationContext helper_decoder decoder shoot = Inl (Errorf ''cannot be decoded'' []))"
  by (simp add: newValidationContext_def DecodeInfrastructureConfig_def Required_def
      String_infraConfigPath String_cpConfigPath)

theorem newValidationContext_required_fields_witness:
  "newValidationContext sample_scheme () (sample_shoot None None (Some ''seed1'')) =
     Inl (FieldErr \<lparr>Type = ErrorTypeRequired, Field = ''spec.provider.infrastructureConfig'',
                    BadValue = [],
                    Detail = ''infrastructureConfig must be set for OpenStack shoots''\<rparr>)
   \<and> newValidationContext sample_scheme () (sample_shoot (Some (raw_config ''{}'')) None (Some ''seed1'')) =
     Inl (FieldErr \<lparr>Type = ErrorTypeRequired, Field = ''spec.provider.controlPlaneConfig'',
                    BadValue = [],
                    Detail = ''controlPlaneConfig must be set for OpenStack shoots''\<rparr>)
   \<and> newValidationContext sample_scheme () (sample_shoot (Some (raw_config ''garbage'')) None (Some ''seed1'')) =
     Inl (Errorf ''cannot be decoded'' [])"
  using newValidationContext_required_fields
          [of "sample_shoot None None (Some ''seed1'')" sample_scheme "()"]
        newValidationContext_required_fields
          [of "sample_shoot (Some (raw_config ''{}'')) None (Some ''seed1'')" sample_scheme "()"
              "raw_config ''{}''" "''{}''"]
        newValidationContext_required_fields
          [of "sample_shoot (Some (raw_config ''garbage'')) None (Some ''seed1'')" sample_scheme "()"
              "raw_config ''garbage''" _ "External ''malformed''"]
  by (simp add: sample_shoot_def sample_scheme_def sample_decode_def raw_config_def)

text \<open>
  C1 as stated fails: a shoot whose control plane configuration is nil and whose
  infrastructure configuration does not decode is refused with the decoding error,
  not with a required-field error.
\<close>

theorem newValidationContext_decodes_before_controlPlane_check:
  "ControlPlaneConfig (Provider (Spec (sample_shoot (Some (raw_config ''garbage'')) None (Some ''seed1'')))) = None
   \<and> newValidationContext sample_scheme ()
        (sample_shoot (Some (raw_config ''garbage'')) None (Some ''seed1'')) =
      Inl (Errorf ''cannot be decoded'' [])
   \<and> \<not> is_RequiredFieldError (Errorf ''cannot be decoded'' [])"
  by (simp add: newValidationContext_def DecodeInfrastructureConfig_def sample_shoot_def
      sample_scheme_def sample_decode_def raw_config_def)





text \<open>
  The assumption is used: a decoder with a side effect, which the specification rules
  out, answers the second call differently.
\<close>

lemma worn_decoder_is_not_idempotent:
  "fst (run_newValidationContext worn_decoder ()
          (sample_shoot (Some (raw_config ''{a}'')) (Some (raw_config ''{b}'')) (Some ''seed1'')) 0)
     = Inl (FieldErr \<lparr>Type = ErrorTypeInvalid, Field = ''spec.provider.controlPlaneConfig'',
                      BadValue = ''{b}'', Detail = ''cannot be decoded''\<rparr>)
   \<and> fst (run_newValidationContext worn_decoder ()
          (sample_shoot (Some (raw_config ''{a}'')) (Some (raw_config ''{b}'')) (Some ''seed1'')) 2)
     = Inl (Errorf ''cannot be decoded'' [])
   \<and> snd (run_newValidationContext worn_decoder ()
          (sample_shoot (Some (raw_config ''{a}'')) (Some (raw_config ''{b}'')) (Some ''seed1'')) 0)
     = 2"
  by (simp add: run_newValidationContext_def run_DecodeInfrastructureConfig_def
      run_DecodeControlPlaneConfig_def worn_decoder_def sample_shoot_def raw_config_def
      sample_decode_def Invalid_def String_cpConfigPath string_of_bytes_def)

subsection \<open>Checks against the cloud profile\<close>

text \<open>
  C4.  When the fetched cloud profile has no provider configuration, both checks
  against the cloud profile fail with the error "providerConfig is not given for cloud
  profile" for the profile's name, for every infrastructure and control plane
  configuration of the shoot, after one request to the store each.
\<close>

theorem cloud_profile_without_providerConfig:
  assumes "v_client v (CloudProfileName (Spec shoot)) = Inr cloudProfile"
      and "ProviderConfig (Spec cloudProfile) = None"
  shows "validateInfraAgainstCloudProfile v helper_decoder V shoot infraConfig fldPath reqs =
           (Some (Errorf ''providerConfig is not given for cloud profile %q''
                    [ArgString (Name (ObjectMeta cloudProfile))]),
            reqs @ [CloudProfileName (Spec shoot)])
         \<and> validateCpAgainstCloudProfile v helper_decoder V shoot cpConfig fldPath' reqs' =
           (Some (Errorf ''providerConfig is not given for cloud profile %q''
                    [ArgString (Name (ObjectMeta cloudProfile))]),
            reqs' @ [CloudProfileName (Spec shoot)])"
  using assms
  by (simp add: validateInfraAgainstCloudProfile_def validateCpAgainstCloudProfile_def)

theorem cloud_profile_without_providerConfig_witness:
  "validateInfraAgainstCloudProfile (sample_validator None) sample_scheme sample_validation
     (sample_shoot (Some (raw_config ''{a}'')) (Some (raw_config ''{b}'')) (Some ''seed1''))
     ''{a}'' infraConfigPath [] =
     (Some (Errorf ''providerConfig is not given for cloud profile %q'' [ArgString ''vsphere'']),
      [''vsphere''])
   \<and> validateCpAgainstCloudProfile (sample_validator None) sample_scheme sample_validation
     (sample_shoot (Some (raw_config ''{a}'')) (Some (raw_config ''{b}'')) (Some ''seed1''))
     ''{b}'' cpConfigPath [] =
     (Some (Errorf ''providerConfig is not given for cloud profile %q'' [ArgString ''vsphere'']),
      [''vsphere''])"
  using cloud_profile_without_providerConfig
          [of "sample_validator None"
              "sample_shoot (Some (raw_config ''{a}'')) (Some (raw_config ''{b}'')) (Some ''seed1'')"
              "sample_profile None" sample_scheme sample_validation "''{a}''" infraConfigPath "[]"
              "''{b}''" cpConfigPath "[]"]
  by (simp add: sample_validator_def sample_shoot_def sample_profile_def)

subsection \<open>The admission flows\<close>

text \<open>
  Each check against the cloud profile consults one function of the validation package
  and sends one request to the store.
\<close>

lemma validateInfraAgainstCloudProfile_cong:
  assumes "vspherevalidation_ValidateInfrastructureConfigAgainstCloudProfile V' =
           vspherevalidation_ValidateInfrastructureConfigAgainstCloudProfile V"
  shows "validateInfraAgainstCloudProfile v h V' shoot infraConfig fldPath reqs =
         validateInfraAgainstCloudProfile v h V shoot infraConfig fldPath reqs"
  unfolding validateInfraAgainstCloudProfile_def assms by (rule refl)

lemma validateCpAgainstCloudProfile_cong:
  assumes "vspherevalidation_ValidateControlPlaneConfigAgainstCloudProfile V' =
           vspherevalidation_ValidateControlPlaneConfigAgainstCloudProfile V"
  shows "validateCpAgainstCloudProfile v h V' shoot cpConfig fldPath reqs =
         validateCpAgainstCloudProfile v h V shoot cpConfig fldPath reqs"
  unfolding validateCpAgainstCloudProfile_def assms by (rule refl)

lemma validateInfraAgainstCloudProfile_requests:
  "snd (validateInfraAgainstCloudProfile v h V shoot infraConfig fldPath reqs) =
     reqs @ [CloudProfileName (Spec shoot)]"
  by (simp add: validateInfraAgainstCloudProfile_def Let_def split: sum.splits option.splits)

lemma validateCpAgainstCloudProfile_requests:
  "snd (validateCpAgainstCloudProfile v h V shoot cpConfig fldPath reqs) =
     reqs @ [CloudProfileName (Spec shoot)]"
  by (simp add: validateCpAgainstCloudProfile_def Let_def split: sum.splits option.splits)

text \<open>
  C3.  The creation flow stops at the first step that fails and returns that step's
  error.  When the context cannot be built, no request is sent and no validator decides
  the result; when the infrastructure check against the cloud profile fails, one request
  has been sent and only that check's validator decides; when the control plane check
  fails, two requests have been sent and only the two profile validators decide.
  Otherwise the result is that of the full validation of the shoot.
\<close>

theorem validateShootCreation_fail_fast:
  "(newValidationContext h (v_decoder v) shoot = Inl err \<longrightarrow>
      validateShootCreation v h V' shoot reqs = (Some err, reqs))
   \<and> (newValidationContext h (v_decoder v) shoot = Inr ctx
        \<and> validateInfraAgainstCloudProfile v h V shoot (valctx_infraConfig ctx) infraConfigPath reqs
            = (Some err, reqs')
        \<and> vspherevalidation_ValidateInfrastructureConfigAgainstCloudProfile V' =
            vspherevalidation_ValidateInfrastructureConfigAgainstCloudProfile V \<longrightarrow>
      validateShootCreation v h V' shoot reqs = (Some err, reqs')
      \<and> reqs' = reqs @ [CloudProfileName (Spec shoot)])
   \<and> (newValidationContext h (v_decoder v) shoot = Inr ctx
        \<and> validateInfraAgainstCloudProfile v h V shoot (valctx_infraConfig ctx) infraConfigPath reqs
            = (None, reqs')
        \<and> validateCpAgainstCloudProfile v h V shoot (valctx_cpConfig ctx) cpConfigPath reqs'
            = (Some err, reqs'')
        \<and> vspherevalidation_ValidateInfrastructureConfigAgainstCloudProfile V' =
            vspherevalidation_ValidateInfrastructureConfigAgainstCloudProfile V
        \<and> vspherevalidation_ValidateControlPlaneConfigAgainstCloudProfile V' =
            vspherevalidation_ValidateControlPlaneConfigAgainstCloudProfile V \<longrightarrow>
      validateShootCreation v h V' shoot reqs = (Some err, reqs'')
      \<and> reqs'' = reqs @ [CloudProfileName (Spec shoot), CloudProfileName (Spec shoot)])
   \<and> (newValidationContext h (v_decoder v) shoot = Inr ctx
        \<and> validateInfraAgainstCloudProfile v h V shoot (valctx_infraConfig ctx) infraConfigPath reqs
            = (None, reqs')
        \<and> validateCpAgainstCloudProfile v h V shoot (valctx_cpConfig ctx) cpConfigPath reqs'
            = (None, reqs'') \<longrightarrow>
      validateShootCreation v h V shoot reqs = (validateShoot V ctx, reqs''))"
proof (intro conjI impI)
  assume "newValidationContext h (v_decoder v) shoot = Inl err"
  then show "validateShootCreation v h V' shoot reqs = (Some err, reqs)"
    by (simp add: validateShootCreation_def)
next
  assume a: "newValidationContext h (v_decoder v) shoot = Inr ctx
        \<and> validateInfraAgainstCloudProfile v h V shoot (valctx_infraConfig ctx) infraConfigPath reqs
            = (Some err, reqs')
        \<and> vspherevalidation_ValidateInfrastructureConfigAgainstCloudProfile V' =
            vspherevalidation_ValidateInfrastructureConfigAgainstCloudProfile V"
  from a have "validateInfraAgainstCloudProfile v h V' shoot (valctx_infraConfig ctx) infraConfigPath reqs
               = validateInfraAgainstCloudProfile v h V shoot (valctx_infraConfig ctx) infraConfigPath reqs"
    by (intro validateInfraAgainstCloudProfile_cong) simp
  with a have "validateInfraAgainstCloudProfile v h V' shoot (valctx_infraConfig ctx) infraConfigPath reqs
               = (Some err, reqs')"
    by simp
  with a show "validateShootCreation v h V' shoot reqs = (Some err, reqs')"
    by (simp add: validateShootCreation_def)
  from a validateInfraAgainstCloudProfile_requests
         [of v h V shoot "valctx_infraConfig ctx" infraConfigPath reqs]
  show "reqs' = reqs @ [CloudProfileName (Spec shoot)]" by simp
next
  assume a: "newValidationContext h (v_decoder v) shoot = Inr ctx
        \<and> validateInfraAgainstCloudProfile v h V shoot (valctx_infraConfig ctx) infraConfigPath reqs
            = (None, reqs')
        \<and> validateCpAgainstCloudProfile v h V shoot (valctx_cpConfig ctx) cpConfigPath reqs'
            = (Some err, reqs'')
        \<and> vspherevalidation_ValidateInfrastructureConfigAgainstCloudProfile V' =
            vspherevalidation_ValidateInfrastructureConfigAgainstCloudProfile V
        \<and> vspherevalidation_ValidateControlPlaneConfigAgainstCloudProfile V' =
            vspherevalidation_ValidateControlPlaneConfigAgainstCloudProfile V"
  from a have "validateInfraAgainstCloudProfile v h V' shoot (valctx_infraConfig ctx) infraConfigPath reqs
               = validateInfraAgainstCloudProfile v h V shoot (valctx_infraConfig ctx) infraConfigPath reqs"
    by (intro validateInfraAgainstCloudProfile_cong) simp
  moreover from a have "validateCpAgainstCloudProfile v h V' shoot (valctx_cpConfig ctx) cpConfigPath reqs'
               = validateCpAgainstCloudProfile v h V shoot (valctx_cpConfig ctx) cpConfigPath reqs'"
    by (intro validateCpAgainstCloudProfile_cong) simp
  ultimately have "validateInfraAgainstCloudProfile v h V' shoot (valctx_infraConfig ctx) infraConfigPath reqs
               = (None, reqs')"
       and "validateCpAgainstCloudProfile v h V' shoot (valctx_cpConfig ctx) cpConfigPath reqs'
               = (Some err, reqs'')"
    using a by simp_all
  with a show "validateShootCreation v h V' shoot reqs = (Some err, reqs'')"
    by (simp add: validateShootCreation_def)
  from a validateInfraAgainstCloudProfile_requests
         [of v h V shoot "valctx_infraConfig ctx" infraConfigPath reqs]
       validateCpAgainstCloudProfile_requests
         [of v h V shoot "valctx_cpConfig ctx" cpConfigPath reqs']
  show "reqs'' = reqs @ [CloudProfileName (Spec shoot), CloudProfileName (Spec shoot)]" by simp
next
  assume "newValidationContext h (v_decoder v) shoot = Inr ctx
        \<and> validateInfraAgainstCloudProfile v h V shoot (valctx_infraConfig ctx) infraConfigPath reqs
            = (None, reqs')
        \<and> validateCpAgainstCloudProfile v h V shoot (valctx_cpConfig ctx) cpConfigPath reqs'
            = (None, reqs'')"
  then show "validateShootCreation v h V shoot reqs = (validateShoot V ctx, reqs'')"
    by (simp add: validateShootCreation_def)
qed

theorem validateShootCreation_fail_fast_witness:
  "validateShootCreation (sample_validator None) sample_scheme sample_validation
      (sample_shoot None None (Some ''seed1'')) [] =
     (Some (FieldErr \<lparr>Type = ErrorTypeRequired, Field = ''spec.provider.infrastructureConfig'',
                     BadValue = [],
                     Detail = ''infrastructureConfig must be set for OpenStack shoots''\<rparr>), [])
   \<and> validateShootCreation (sample_validator None) sample_scheme sample_validation
      (sample_shoot (Some (raw_config ''{a}'')) (Some (raw_config ''{b}'')) (Some ''seed1'')) [] =
     (Some (Errorf ''providerConfig is not given for cloud profile %q'' [ArgString ''vsphere'']),
      [''vsphere''])
   \<and> validateShootCreation (sample_validator (Some (raw_config ''{c}''))) sample_scheme sample_validation
      (sample_shoot (Some (raw_config ''{a}'')) (Some (raw_config ''{b}'')) (Some ''seed1'')) [] =
     (Some (Aggregate [\<lparr>Type = ErrorTypeInvalid, Field = ''spec.provider.controlPlaneConfig'',
                        BadValue = ''{b}'', Detail = ''not offered by the profile''\<rparr>]),
      [''vsphere'', ''vsphere''])
   \<and> validateShootCreation (sample_validator (Some (raw_config ''{b}''))) sample_scheme sample_validation
      (sample_shoot (Some (raw_config ''{a}'')) (Some (raw_config ''{b}'')) (Some ''seed1'')) [] =
     (Some (Aggregate [\<lparr>Type = ErrorTypeRequired, Field = ''spec.provider.workers'',
                        BadValue = [], Detail = ''at least one worker pool''\<rparr>]),
      [''vsphere'', ''vsphere''])"
proof -
  let ?ok = "sample_shoot (Some (raw_config ''{a}'')) (Some (raw_config ''{b}'')) (Some ''seed1'')"
  let ?ctx = "\<lparr>valctx_shoot = ?ok, valctx_infraConfig = ''{a}'', valctx_cpConfig = ''{b}''\<rparr>"
  have ctx: "newValidationContext sample_scheme () ?ok = Inr ?ctx"
    by (simp add: newValidationContext_def DecodeInfrastructureConfig_def
        DecodeControlPlaneConfig_def sample_defs)
  have paths: "String workersPath = ''spec.provider.workers''"
    by (simp add: workersPath_def providerPath_def specPath_def Child_def NewPath_def)
  have 1: "validateShootCreation (sample_validator None) sample_scheme sample_validation
      (sample_shoot None None (Some ''seed1'')) [] =
     (Some (FieldErr \<lparr>Type = ErrorTypeRequired, Field = ''spec.provider.infrastructureConfig'',
                     BadValue = [],
                     Detail = ''infrastructureConfig must be set for OpenStack shoots''\<rparr>), [])"
    using validateShootCreation_fail_fast
            [where h = sample_scheme and v = "sample_validator None"
               and shoot = "sample_shoot None None (Some ''seed1'')" and V' = sample_validation
               and reqs = "[]"
               and err = "FieldErr \<lparr>Type = ErrorTypeRequired,
                              Field = ''spec.provider.infrastructureConfig'', BadValue = [],
                              Detail = ''infrastructureConfig must be set for OpenStack shoots''\<rparr>",
             THEN conjunct1]
    by (simp add: newValidationContext_def Required_def String_infraConfigPath sample_shoot_def)
  have 2: "validateShootCreation (sample_validator None) sample_scheme sample_validation ?ok [] =
     (Some (Errorf ''providerConfig is not given for cloud profile %q'' [ArgString ''vsphere'']),
      [''vsphere''])"
    using validateShootCreation_fail_fast
            [where h = sample_scheme and v = "sample_validator None"
               and shoot = ?ok and V = sample_validation and V' = sample_validation
               and reqs = "[]" and ctx = ?ctx and reqs' = "[''vsphere'']"
               and err = "Errorf ''providerConfig is not given for cloud profile %q''
                            [ArgString ''vsphere'']",
             THEN conjunct2, THEN conjunct1] ctx
    by (simp add: validateInfraAgainstCloudProfile_def sample_validator_def sample_profile_def
        sample_shoot_def)
  have 3: "validateShootCreation (sample_validator (Some (raw_config ''{c}''))) sample_scheme
             sample_validation ?ok [] =
     (Some (Aggregate [\<lparr>Type = ErrorTypeInvalid, Field = ''spec.provider.controlPlaneConfig'',
                        BadValue = ''{b}'', Detail = ''not offered by the profile''\<rparr>]),
      [''vsphere'', ''vsphere''])"
    using validateShootCreation_fail_fast
            [where h = sample_scheme and v = "sample_validator (Some (raw_config ''{c}''))"
               and shoot = ?ok and V = sample_validation and V' = sample_validation
               and reqs = "[]" and ctx = ?ctx and reqs' = "[''vsphere'']"
               and reqs'' = "[''vsphere'', ''vsphere'']"
               and err = "Aggregate [\<lparr>Type = ErrorTypeInvalid,
                              Field = ''spec.provider.controlPlaneConfig'',
                              BadValue = ''{b}'', Detail = ''not offered by the profile''\<rparr>]",
             THEN conjunct2, THEN conjunct2, THEN conjunct1] ctx
    by (simp add: validateInfraAgainstCloudProfile_def validateCpAgainstCloudProfile_def
        DecodeCloudProfileConfig_def ToAggregate_def Invalid_def String_cpConfigPath sample_defs)
  have 4: "validateShootCreation (sample_validator (Some (raw_config ''{b}''))) sample_scheme
             sample_validation ?ok [] =
     (Some (Aggregate [\<lparr>Type = ErrorTypeRequired, Field = ''spec.provider.workers'',
                        BadValue = [], Detail = ''at least one worker pool''\<rparr>]),
      [''vsphere'', ''vsphere''])"
    using validateShootCreation_fail_fast
            [where h = sample_scheme and v = "sample_validator (Some (raw_config ''{b}''))"
               and shoot = ?ok and V = sample_validation
               and reqs = "[]" and ctx = ?ctx and reqs' = "[''vsphere'']"
               and reqs'' = "[''vsphere'', ''vsphere'']",
             THEN conjunct2, THEN conjunct2, THEN conjunct2] ctx
    by (simp add: validateInfraAgainstCloudProfile_def validateCpAgainstCloudProfile_def
        DecodeCloudProfileConfig_def ToAggregate_def validateShoot_def Required_def paths
        sample_defs)
  from 1 2 3 4 show ?thesis by simp
qed

text \<open>
  C2.  When both contexts are built and the update checks of the infrastructure
  configuration and of the control plane configuration both report errors, the update
  flow returns the aggregate of the infrastructure errors; validation packages that
  agree on the infrastructure update check give the same result, whatever their other
  checks say.
\<close>

theorem validateShootUpdate_reports_infrastructure_first:
  assumes "newValidationContext h (v_decoder v) oldShoot = Inr oldValContext"
      and "newValidationContext h (v_decoder v) shoot = Inr valContext"
      and "vspherevalidation_ValidateInfrastructureConfigUpdate V
             (valctx_infraConfig oldValContext) (valctx_infraConfig valContext) infraConfigPath
           = infraErrs"
      and "infraErrs \<noteq> []"
      and "vspherevalidation_ValidateControlPlaneConfigUpdate V
             (valctx_cpConfig oldValContext) (valctx_cpConfig valContext) cpConfigPath \<noteq> []"
      and "vspherevalidation_ValidateInfrastructureConfigUpdate V' =
           vspherevalidation_ValidateInfrastructureConfigUpdate V"
  shows "validateShootUpdate v h V oldShoot shoot = Some (Aggregate infraErrs)
         \<and> validateShootUpdate v h V' oldShoot shoot = Some (Aggregate infraErrs)"
  using assms by (simp add: validateShootUpdate_def ToAggregate_def)

theorem validateShootUpdate_reports_infrastructure_first_witness:
  "validateShootUpdate (sample_validator None) sample_scheme sample_validation
      (sample_shoot (Some (raw_config ''{a}'')) (Some (raw_config ''{b}'')) (Some ''seed1''))
      (sample_shoot (Some (raw_config ''{a2}'')) (Some (raw_config ''{b2}'')) (Some ''seed1'')) =
     Some (Aggregate [\<lparr>Type = ErrorTypeInvalid, Field = ''spec.provider.infrastructureConfig'',
                       BadValue = ''{a2}'', Detail = ''field is immutable''\<rparr>])
   \<and> validateShootUpdate (sample_validator None) sample_scheme
      (sample_validation\<lparr>vspherevalidation_ValidateControlPlaneConfigUpdate :=
                           (\<lambda>oldConfig newConfig fldPath. [])\<rparr>)
      (sample_shoot (Some (raw_config ''{a}'')) (Some (raw_config ''{b}'')) (Some ''seed1''))
      (sample_shoot (Some (raw_config ''{a2}'')) (Some (raw_config ''{b2}'')) (Some ''seed1'')) =
     Some (Aggregate [\<lparr>Type = ErrorTypeInvalid, Field = ''spec.provider.infrastructureConfig'',
                       BadValue = ''{a2}'', Detail = ''field is immutable''\<rparr>])"
proof -
  let ?old = "sample_shoot (Some (raw_config ''{a}'')) (Some (raw_config ''{b}'')) (Some ''seed1'')"
  let ?new = "sample_shoot (Some (raw_config ''{a2}'')) (Some (raw_config ''{b2}'')) (Some ''seed1'')"
  have old: "newValidationContext sample_scheme (v_decoder (sample_validator None)) ?old =
          Inr \<lparr>valctx_shoot = ?old, valctx_infraConfig = ''{a}'', valctx_cpConfig = ''{b}''\<rparr>"
    by (simp add: newValidationContext_def DecodeInfrastructureConfig_def
        DecodeControlPlaneConfig_def sample_defs)
  have new: "newValidationContext sample_scheme (v_decoder (sample_validator None)) ?new =
          Inr \<lparr>valctx_shoot = ?new, valctx_infraConfig = ''{a2}'', valctx_cpConfig = ''{b2}''\<rparr>"
    by (simp add: newValidationContext_def DecodeInfrastructureConfig_def
        DecodeControlPlaneConfig_def sample_defs)
  show ?thesis
    by (rule validateShootUpdate_reports_infrastructure_first [OF old new])
       (simp_all add: sample_validation_def Invalid_def String_infraConfigPath)
qed

text \<open>
  With the infrastructure validators of the sources the infrastructure update check
  reports nothing.
\<close>

lemma source_validation_never_reports_infrastructure_update:
  "vspherevalidation_ValidateInfrastructureConfigUpdate (source_validation V) oldConfig newConfig fldPath = []"
  by (simp add: source_validation_def ValidateInfrastructureConfigUpdate_def)

subsection \<open>Reading the cloud profile configuration of a cluster\<close>

text \<open>
  C10.  \<open>GetCloudProfileConfig\<close> returns no configuration and no error when the
  cluster, its cloud profile, the profile's provider configuration or the raw bytes of
  that configuration are nil.  When the bytes are present and decode, the decoded
  configuration is validated: violations are returned as an error, and a configuration
  without violations is returned.
\<close>

theorem GetCloudProfileConfig_absent_or_validated:
  "GetCloudProfileConfig dec validate (None :: ('w, 'sd) Cluster option) = Inr None
   \<and> (Cluster_CloudProfile (cl :: ('w, 'sd) Cluster) = None \<longrightarrow> GetCloudProfileConfig dec validate (Some cl) = Inr None)
   \<and> (Cluster_CloudProfile cl = Some cp \<and> ProviderConfig (Spec cp) = None \<longrightarrow>
        GetCloudProfileConfig dec validate (Some cl) = Inr None)
   \<and> (Cluster_CloudProfile cl = Some cp \<and> ProviderConfig (Spec cp) = Some pc \<and> Raw pc = None \<longrightarrow>
        GetCloudProfileConfig dec validate (Some cl) = Inr None)
   \<and> (Cluster_CloudProfile cl = Some cp \<and> ProviderConfig (Spec cp) = Some pc \<and> Raw pc = Some raw
        \<and> util_Decode_CloudProfileConfig dec (Some raw) = Inr cfg \<and> validate cfg \<noteq> [] \<longrightarrow>
        GetCloudProfileConfig dec validate (Some cl) =
          Inl (Wrap (Aggregate (validate cfg))
                 (''validation of providerConfig of cloud profile '' @ Name (ObjectMeta cp)
                    @ '' failed'')))
   \<and> (Cluster_CloudProfile cl = Some cp \<and> ProviderConfig (Spec cp) = Some pc \<and> Raw pc = Some raw
        \<and> util_Decode_CloudProfileConfig dec (Some raw) = Inr cfg \<and> validate cfg = [] \<longrightarrow>
        GetCloudProfileConfig dec validate (Some cl) = Inr (Some cfg))"
  by (simp add: GetCloudProfileConfig_def DecodeCloudProfileConfig_def)

theorem GetCloudProfileConfig_absent_or_validated_witness:
  "GetCloudProfileConfig sample_scheme sample_ValidateCloudProfileConfig
      (Some (sample_cluster None None)) = Inr None
   \<and> GetCloudProfileConfig sample_scheme sample_ValidateCloudProfileConfig
      (Some (sample_cluster (Some (sample_profile None)) None)) = Inr None
   \<and> GetCloudProfileConfig sample_scheme sample_ValidateCloudProfileConfig
      (Some (sample_cluster (Some (sample_profile (Some \<lparr>Raw = None, Object = None\<rparr>))) None)) = Inr None
   \<and> GetCloudProfileConfig sample_scheme sample_ValidateCloudProfileConfig
      (Some (sample_cluster (Some (sample_profile (Some (raw_config ''{}'')))) None)) =
        Inl (Wrap (Aggregate [\<lparr>Type = ErrorTypeRequired, Field = ''regions'', BadValue = [],
                                Detail = ''at least one region''\<rparr>])
               ''validation of providerConfig of cloud profile vsphere failed'')
   \<and> GetCloudProfileConfig sample_scheme sample_ValidateCloudProfileConfig
      (Some (sample_cluster (Some (sample_profile (Some (raw_config ''{r}'')))) None)) = Inr (Some ''{r}'')"
proof -
  note T = GetCloudProfileConfig_absent_or_validated
             [where dec = sample_scheme and validate = sample_ValidateCloudProfileConfig]
  have 1: "GetCloudProfileConfig sample_scheme sample_ValidateCloudProfileConfig
      (Some (sample_cluster None None)) = Inr None"
    using T [where cl = "sample_cluster None None"]
    by (simp add: sample_cluster_def)
  have 2: "GetCloudProfileConfig sample_scheme sample_ValidateCloudProfileConfig
      (Some (sample_cluster (Some (sample_profile None)) None)) = Inr None"
    using T [where cl = "sample_cluster (Some (sample_profile None)) None"
               and cp = "sample_profile None"]
    by (simp add: sample_cluster_def sample_profile_def)
  have 3: "GetCloudProfileConfig sample_scheme sample_ValidateCloudProfileConfig
      (Some (sample_cluster (Some (sample_profile (Some \<lparr>Raw = None, Object = None\<rparr>))) None)) = Inr None"
    using T [where cl = "sample_cluster (Some (sample_profile (Some \<lparr>Raw = None, Object = None\<rparr>))) None"
               and cp = "sample_profile (Some \<lparr>Raw = None, Object = None\<rparr>)"
               and pc = "\<lparr>Raw = None, Object = None\<rparr>"]
    by (simp add: sample_cluster_def sample_profile_def)
  have 4: "GetCloudProfileConfig sample_scheme sample_ValidateCloudProfileConfig
      (Some (sample_cluster (Some (sample_profile (Some (raw_config ''{}'')))) None)) =
        Inl (Wrap (Aggregate [\<lparr>Type = ErrorTypeRequired, Field = ''regions'', BadValue = [],
                                Detail = ''at least one region''\<rparr>])
               ''validation of providerConfig of cloud profile vsphere failed'')"
    using T [where cl = "sample_cluster (Some (sample_profile (Some (raw_config ''{}'')))) None"
               and cp = "sample_profile (Some (raw_config ''{}''))"
               and pc = "raw_config ''{}''" and raw = "''{}''" and cfg = "''{}''"]
    by (simp add: sample_cluster_def sample_profile_def sample_scheme_def sample_decode_def
        raw_config_def sample_ValidateCloudProfileConfig_def Required_def)
  have 5: "GetCloudProfileConfig sample_scheme sample_ValidateCloudProfileConfig
      (Some (sample_cluster (Some (sample_profile (Some (raw_config ''{r}'')))) None)) = Inr (Some ''{r}'')"
    using T [where cl = "sample_cluster (Some (sample_profile (Some (raw_config ''{r}'')))) None"
               and cp = "sample_profile (Some (raw_config ''{r}''))"
               and pc = "raw_config ''{r}''" and raw = "''{r}''" and cfg = "''{r}''"]
    by (simp add: sample_cluster_def sample_profile_def sample_scheme_def sample_decode_def
        raw_config_def sample_ValidateCloudProfileConfig_def)
  from 1 2 3 4 5 show ?thesis by simp
qed

subsection \<open>Absent payloads in the decoding functions\<close>

lemmas Get_defs = GetInfrastructureConfig_def GetControlPlaneConfig_def
  GetCloudProfileConfig_def GetInfrastructureStatus_def

lemmas Decode_defs = DecodeInfrastructureConfig_def DecodeControlPlaneConfig_def
  DecodeCloudProfileConfig_def

text \<open>
  C5, as the code has it.  For an absent payload \<open>GetInfrastructureConfig\<close> (no
  infrastructure configuration, or one without raw bytes) and \<open>GetControlPlaneConfig\<close>
  (no control plane configuration) return the zero value and no error, while
  \<open>GetCloudProfileConfig\<close> (no cluster, cloud profile, provider configuration or raw
  bytes) and \<open>GetInfrastructureStatus\<close> (no extension or raw bytes) return no object
  and no error.  Every other payload is handed to the decoder and the decoder's answer
  decides: its object is returned (by \<open>GetCloudProfileConfig\<close> after validation), its
  refusal becomes the decoding error.  So with a decoder that takes nil and empty bytes
  for "no configuration provided", every decoding function returns the zero value for
  such bytes, and only bytes that the decoder refuses give a decoding error.
\<close>

theorem decode_operations_on_payloads:
  fixes cl :: "('w, 'sd) Cluster" and ext :: "'o RawExtension"
    and dec :: "('ic, 'cc, 'pc, 'st) scheme"
  shows
  "(Cluster_Shoot cl = Some shoot \<and> InfrastructureConfig (Provider (Spec shoot)) = None \<longrightarrow>
      GetInfrastructureConfig dec (Some cl) = Return (Inr (new_InfrastructureConfig dec)))
   \<and> (Cluster_Shoot cl = Some shoot \<and> InfrastructureConfig (Provider (Spec shoot)) = Some src
        \<and> Raw src = None \<longrightarrow>
      GetInfrastructureConfig dec (Some cl) = Return (Inr (new_InfrastructureConfig dec)))
   \<and> (Cluster_Shoot cl = Some shoot \<and> ControlPlaneConfig (Provider (Spec shoot)) = None \<longrightarrow>
      GetControlPlaneConfig dec (Some cl) = Return (Inr (new_ControlPlaneConfig dec)))
   \<and> GetCloudProfileConfig dec validate (None :: ('w, 'sd) Cluster option) = Inr None
   \<and> (Cluster_CloudProfile cl = None \<longrightarrow> GetCloudProfileConfig dec validate (Some cl) = Inr None)
   \<and> (Cluster_CloudProfile cl = Some cp \<and> ProviderConfig (Spec cp) = None \<longrightarrow>
      GetCloudProfileConfig dec validate (Some cl) = Inr None)
   \<and> (Cluster_CloudProfile cl = Some cp \<and> ProviderConfig (Spec cp) = Some pc \<and> Raw pc = None \<longrightarrow>
      GetCloudProfileConfig dec validate (Some cl) = Inr None)
   \<and> GetInfrastructureStatus dec name (None :: 'o RawExtension option) = Inr None
   \<and> (Raw ext = None \<longrightarrow> GetInfrastructureStatus dec name (Some ext) = Inr None)

   \<and> (Cluster_Shoot cl = Some shoot \<and> InfrastructureConfig (Provider (Spec shoot)) = Some src
        \<and> Raw src = Some raw \<longrightarrow>
      GetInfrastructureConfig dec (Some cl) =
        Return (decoder_Decode_InfrastructureConfig dec (Some raw)))
   \<and> (Cluster_Shoot cl = Some shoot \<and> ControlPlaneConfig (Provider (Spec shoot)) = Some src \<longrightarrow>
      GetControlPlaneConfig dec (Some cl) =
        Return (case decoder_Decode_ControlPlaneConfig dec (Raw src) of
                  Inl err \<Rightarrow>
                    Inl (Wrap err (''could not decode providerConfig of controlplane ''
                           @ [CHR 0x27] @ Name (ObjectMeta shoot) @ [CHR 0x27]))
                | Inr cpConfig \<Rightarrow> Inr cpConfig))
   \<and> (Raw ext = Some raw \<longrightarrow>
      GetInfrastructureStatus dec name (Some ext) =
        (case decoder_Decode_InfrastructureStatus dec (Some raw) of
           Inl err \<Rightarrow>
             Inl (Wrap err (''could not decode infrastructureProviderStatus of controlplane ''
                    @ [CHR 0x27] @ name @ [CHR 0x27]))
         | Inr infraStatus \<Rightarrow> Inr (Some infraStatus)))
   \<and> (Cluster_CloudProfile cl = Some cp \<and> ProviderConfig (Spec cp) = Some pc
        \<and> Raw pc = Some raw \<longrightarrow>
      GetCloudProfileConfig dec validate (Some cl) =
        (case util_Decode_CloudProfileConfig dec (Some raw) of
           Inl err \<Rightarrow>
             Inl (Wrap (FieldErr \<lparr>Type = ErrorTypeInvalid,
                                  Field = ''cloudprofile.spec.providerConfig'',
                                  BadValue = raw, Detail = ''cannot be decoded''\<rparr>)
                    (''cloud profile '' @ Name (ObjectMeta cp)))
         | Inr cloudProfileConfig \<Rightarrow>
             if validate cloudProfileConfig = [] then Inr (Some cloudProfileConfig)
             else Inl (Wrap (Aggregate (validate cloudProfileConfig))
                         (''validation of providerConfig of cloud profile ''
                            @ Name (ObjectMeta cp) @ '' failed''))))
   \<and> DecodeInfrastructureConfig dec cfg fldPath =
        (case util_Decode_InfrastructureConfig dec (Raw cfg) of
           Inl err \<Rightarrow> Inl (Errorf ''cannot be decoded'' [])
         | Inr infraConfig \<Rightarrow> Inr infraConfig)
   \<and> DecodeControlPlaneConfig dec cfg fldPath =
        (case util_Decode_ControlPlaneConfig dec (Raw cfg) of
           Inl err \<Rightarrow>
             Inl (FieldErr \<lparr>Type = ErrorTypeInvalid, Field = String fldPath,
                            BadValue = (case Raw cfg of None \<Rightarrow> [] | Some b \<Rightarrow> b),
                            Detail = ''cannot be decoded''\<rparr>)
         | Inr controlPlaneConfig \<Rightarrow> Inr controlPlaneConfig)
   \<and> DecodeCloudProfileConfig dec cfg fldPath =
        (case util_Decode_CloudProfileConfig dec (Raw cfg) of
           Inl err \<Rightarrow>
             Inl (FieldErr \<lparr>Type = ErrorTypeInvalid, Field = String fldPath,
                            BadValue = (case Raw cfg of None \<Rightarrow> [] | Some b \<Rightarrow> b),
                            Detail = ''cannot be decoded''\<rparr>)
         | Inr cloudProfileConfig \<Rightarrow> Inr cloudProfileConfig)

   \<and> (no_configuration_as_zero (util_Decode_InfrastructureConfig dec) zic
        \<and> (Raw cfg = None \<or> Raw cfg = Some []) \<longrightarrow>
      DecodeInfrastructureConfig dec cfg fldPath = Inr zic)
   \<and> (no_configuration_as_zero (util_Decode_ControlPlaneConfig dec) zcc
        \<and> (Raw cfg = None \<or> Raw cfg = Some []) \<longrightarrow>
      DecodeControlPlaneConfig dec cfg fldPath = Inr zcc)
   \<and> (no_configuration_as_zero (util_Decode_CloudProfileConfig dec) zpc
        \<and> (Raw cfg = None \<or> Raw cfg = Some []) \<longrightarrow>
      DecodeCloudProfileConfig dec cfg fldPath = Inr zpc)
   \<and> (no_configuration_as_zero (decoder_Decode_InfrastructureConfig dec) (new_InfrastructureConfig dec)
        \<and> Cluster_Shoot cl = Some shoot
        \<and> InfrastructureConfig (Provider (Spec shoot)) = Some src \<and> Raw src = Some [] \<longrightarrow>
      GetInfrastructureConfig dec (Some cl) = Return (Inr (new_InfrastructureConfig dec)))
   \<and> (no_configuration_as_zero (decoder_Decode_ControlPlaneConfig dec) (new_ControlPlaneConfig dec)
        \<and> Cluster_Shoot cl = Some shoot
        \<and> ControlPlaneConfig (Provider (Spec shoot)) = Some src
        \<and> (Raw src = None \<or> Raw src = Some []) \<longrightarrow>
      GetControlPlaneConfig dec (Some cl) = Return (Inr (new_ControlPlaneConfig dec)))
   \<and> (no_configuration_as_zero (decoder_Decode_InfrastructureStatus dec) zst
        \<and> Raw ext = Some [] \<longrightarrow>
      GetInfrastructureStatus dec name (Some ext) = Inr (Some zst))
   \<and> (no_configuration_as_zero (util_Decode_CloudProfileConfig dec) zpc
        \<and> Cluster_CloudProfile cl = Some cp \<and> ProviderConfig (Spec cp) = Some pc
        \<and> Raw pc = Some [] \<longrightarrow>
      GetCloudProfileConfig dec validate (Some cl) =
        (if validate zpc = [] then Inr (Some zpc)
         else Inl (Wrap (Aggregate (validate zpc))
                     (''validation of providerConfig of cloud profile ''
                        @ Name (ObjectMeta cp) @ '' failed''))))"
proof -
  have s: "String (NewPath ''cloudprofile'' [''spec'', ''providerConfig'']) =
             ''cloudprofile.spec.providerConfig''"
    by (simp add: NewPath_def)
  show ?thesis
    apply (intro conjI impI)
    apply (simp_all add: Get_defs)
    apply (auto simp: Decode_defs Invalid_def s string_of_bytes_def no_configuration_as_zero_def
             split: sum.splits)
    done
qed

theorem decode_operations_on_payloads_witness:
  "GetInfrastructureConfig lenient_scheme (Some (sample_cluster None (Some (sample_shoot None None None)))) = Return (Inr [])
   \<and> GetInfrastructureConfig lenient_scheme (Some (sample_cluster None (Some (sample_shoot (Some \<lparr>Raw = None, Object = None\<rparr>) None None)))) = Return (Inr [])
   \<and> GetInfrastructureConfig lenient_scheme (Some (sample_cluster None (Some (sample_shoot (Some (raw_config [])) None None)))) = Return (Inr [])
   \<and> GetInfrastructureConfig lenient_scheme (Some (sample_cluster None (Some (sample_shoot (Some (raw_config ''garbage'')) None None)))) = Return (Inl (External ''malformed''))
   \<and> GetControlPlaneConfig lenient_scheme (Some (sample_cluster None (Some (sample_shoot None None None)))) = Return (Inr [])
   \<and> GetControlPlaneConfig lenient_scheme (Some (sample_cluster None (Some (sample_shoot None (Some \<lparr>Raw = None, Object = None\<rparr>) None)))) = Return (Inr [])
   \<and> GetInfrastructureStatus lenient_scheme ''shoot1'' (Some \<lparr>Raw = None, Object = Some ()\<rparr>) = Inr None
   \<and> GetInfrastructureStatus lenient_scheme ''shoot1'' (Some \<lparr>Raw = Some [], Object = Some ()\<rparr>) = Inr (Some [])
   \<and> GetCloudProfileConfig lenient_scheme sample_ValidateCloudProfileConfig (Some (sample_cluster (Some (sample_profile (Some \<lparr>Raw = None, Object = None\<rparr>))) None)) = Inr None
   \<and> GetCloudProfileConfig lenient_scheme sample_ValidateCloudProfileConfig (Some (sample_cluster (Some (sample_profile (Some (raw_config [])))) None)) = Inr (Some [])
   \<and> GetCloudProfileConfig lenient_scheme sample_ValidateCloudProfileConfig (Some (sample_cluster (Some (sample_profile (Some (raw_config ''garbage'')))) None)) =
        Inl (Wrap (FieldErr \<lparr>Type = ErrorTypeInvalid, Field = ''cloudprofile.spec.providerConfig'',
                             BadValue = ''garbage'', Detail = ''cannot be decoded''\<rparr>)
               ''cloud profile vsphere'')
   \<and> DecodeInfrastructureConfig lenient_scheme \<lparr>Raw = None, Object = None\<rparr> infraConfigPath = Inr []
   \<and> DecodeControlPlaneConfig lenient_scheme (raw_config []) cpConfigPath = Inr []
   \<and> DecodeCloudProfileConfig lenient_scheme (raw_config ''garbage'') providerConfigPath =
        Inl (FieldErr \<lparr>Type = ErrorTypeInvalid, Field = ''spec.providerConfig'',
                        BadValue = ''garbage'', Detail = ''cannot be decoded''\<rparr>)"
proof -
  have p: "String providerConfigPath = ''spec.providerConfig''"
    by (simp add: providerConfigPath_def specPath_def Child_def NewPath_def)
  have w1: "GetInfrastructureConfig lenient_scheme (Some (sample_cluster None (Some (sample_shoot None None None)))) = Return (Inr [])"
    using decode_operations_on_payloads
            [where dec = lenient_scheme and validate = sample_ValidateCloudProfileConfig
               and cl = "sample_cluster None (Some (sample_shoot None None None))"
               and ext = "\<lparr>Raw = None, Object = Some ()\<rparr>" and name = "''shoot1''" and shoot = "sample_shoot None None None"]
    by (simp add: sample_cluster_def sample_shoot_def sample_profile_def lenient_scheme_def lenient_decode_def
        raw_config_def no_configuration_as_zero_def sample_ValidateCloudProfileConfig_def p)
  have w2: "GetInfrastructureConfig lenient_scheme (Some (sample_cluster None (Some (sample_shoot (Some \<lparr>Raw = None, Object = None\<rparr>) None None)))) = Return (Inr [])"
    using decode_operations_on_payloads
            [where dec = lenient_scheme and validate = sample_ValidateCloudProfileConfig
               and cl = "sample_cluster None (Some (sample_shoot (Some \<lparr>Raw = None, Object = None\<rparr>) None None))"
               and ext = "\<lparr>Raw = None, Object = Some ()\<rparr>" and name = "''shoot1''" and shoot = "sample_shoot (Some \<lparr>Raw = None, Object = None\<rparr>) None None" and src = "\<lparr>Raw = None, Object = None\<rparr>"]
    by (simp add: sample_cluster_def sample_shoot_def sample_profile_def lenient_scheme_def lenient_decode_def
        raw_config_def no_configuration_as_zero_def sample_ValidateCloudProfileConfig_def p)
  have w3: "GetInfrastructureConfig lenient_scheme (Some (sample_cluster None (Some (sample_shoot (Some (raw_config [])) None None)))) = Return (Inr [])"
    using decode_operations_on_payloads
            [where dec = lenient_scheme and validate = sample_ValidateCloudProfileConfig
               and cl = "sample_cluster None (Some (sample_shoot (Some (raw_config [])) None None))"
               and ext = "\<lparr>Raw = None, Object = Some ()\<rparr>" and name = "''shoot1''" and shoot = "sample_shoot (Some (raw_config [])) None None" and src = "raw_config []" and raw = "[]"]
    by (simp add: sample_cluster_def sample_shoot_def sample_profile_def lenient_scheme_def lenient_decode_def
        raw_config_def no_configuration_as_zero_def sample_ValidateCloudProfileConfig_def p)
  have w4: "GetInfrastructureConfig lenient_scheme (Some (sample_cluster None (Some (sample_shoot (Some (raw_config ''garbage'')) None None)))) = Return (Inl (External ''malformed''))"
    using decode_operations_on_payloads
            [where dec = lenient_scheme and validate = sample_ValidateCloudProfileConfig
               and cl = "sample_cluster None (Some (sample_shoot (Some (raw_config ''garbage'')) None None))"
               and ext = "\<lparr>Raw = None, Object = Some ()\<rparr>" and name = "''shoot1''" and shoot = "sample_shoot (Some (raw_config ''garbage'')) None None" and src = "raw_config ''garbage''" and raw = "''garbage''"]
    by (simp add: sample_cluster_def sample_shoot_def sample_profile_def lenient_scheme_def lenient_decode_def
        raw_config_def no_configuration_as_zero_def sample_ValidateCloudProfileConfig_def p)
  have w5: "GetControlPlaneConfig lenient_scheme (Some (sample_cluster None (Some (sample_shoot None None None)))) = Return (Inr [])"
    using decode_operations_on_payloads
            [where dec = lenient_scheme and validate = sample_ValidateCloudProfileConfig
               and cl = "sample_cluster None (Some (sample_shoot None None None))"
               and ext = "\<lparr>Raw = None, Object = Some ()\<rparr>" and name = "''shoot1''" and shoot = "sample_shoot None None None"]
    by (simp add: sample_cluster_def sample_shoot_def sample_profile_def lenient_scheme_def lenient_decode_def
        raw_config_def no_configuration_as_zero_def sample_ValidateCloudProfileConfig_def p)
  have w6: "GetControlPlaneConfig lenient_scheme (Some (sample_cluster None (Some (sample_shoot None (Some \<lparr>Raw = None, Object = None\<rparr>) None)))) = Return (Inr [])"
    using decode_operations_on_payloads
            [where dec = lenient_scheme and validate = sample_ValidateCloudProfileConfig
               and cl = "sample_cluster None (Some (sample_shoot None (Some \<lparr>Raw = None, Object = None\<rparr>) None))"
               and ext = "\<lparr>Raw = None, Object = Some ()\<rparr>" and name = "''shoot1''" and shoot = "sample_shoot None (Some \<lparr>Raw = None, Object = None\<rparr>) None" and src = "\<lparr>Raw = None, Object = None\<rparr>"]
    by (simp add: sample_cluster_def sample_shoot_def sample_profile_def lenient_scheme_def lenient_decode_def
        raw_config_def no_configuration_as_zero_def sample_ValidateCloudProfileConfig_def p)
  have w7: "GetInfrastructureStatus lenient_scheme ''shoot1'' (Some \<lparr>Raw = None, Object = Some ()\<rparr>) = Inr None"
    using decode_operations_on_payloads
            [where dec = lenient_scheme and validate = sample_ValidateCloudProfileConfig
               and cl = "sample_cluster None (Some (sample_shoot None None None))"
               and ext = "\<lparr>Raw = None, Object = Some ()\<rparr>" and name = "''shoot1''"]
    by (simp add: sample_cluster_def sample_shoot_def sample_profile_def lenient_scheme_def lenient_decode_def
        raw_config_def no_configuration_as_zero_def sample_ValidateCloudProfileConfig_def p)
  have w8: "GetInfrastructureStatus lenient_scheme ''shoot1'' (Some \<lparr>Raw = Some [], Object = Some ()\<rparr>) = Inr (Some [])"
    using decode_operations_on_payloads
            [where dec = lenient_scheme and validate = sample_ValidateCloudProfileConfig
               and cl = "sample_cluster None (Some (sample_shoot None None None))"
               and ext = "\<lparr>Raw = Some [], Object = Some ()\<rparr>" and name = "''shoot1''" and raw = "[]" and zst = "[]"]
    by (simp add: sample_cluster_def sample_shoot_def sample_profile_def lenient_scheme_def lenient_decode_def
        raw_config_def no_configuration_as_zero_def sample_ValidateCloudProfileConfig_def p)
  have w9: "GetCloudProfileConfig lenient_scheme sample_ValidateCloudProfileConfig (Some (sample_cluster (Some (sample_profile (Some \<lparr>Raw = None, Object = None\<rparr>))) None)) = Inr None"
    using decode_operations_on_payloads
            [where dec = lenient_scheme and validate = sample_ValidateCloudProfileConfig
               and cl = "sample_cluster (Some (sample_profile (Some \<lparr>Raw = None, Object = None\<rparr>))) None"
               and ext = "\<lparr>Raw = None, Object = Some ()\<rparr>" and name = "''shoot1''" and cp = "sample_profile (Some \<lparr>Raw = None, Object = None\<rparr>)" and pc = "\<lparr>Raw = None, Object = None\<rparr>"]
    by (simp add: sample_cluster_def sample_shoot_def sample_profile_def lenient_scheme_def lenient_decode_def
        raw_config_def no_configuration_as_zero_def sample_ValidateCloudProfileConfig_def p)
  have w10: "GetCloudProfileConfig lenient_scheme sample_ValidateCloudProfileConfig (Some (sample_cluster (Some (sample_profile (Some (raw_config [])))) None)) = Inr (Some [])"
    using decode_operations_on_payloads
            [where dec = lenient_scheme and validate = sample_ValidateCloudProfileConfig
               and cl = "sample_cluster (Some (sample_profile (Some (raw_config [])))) None"
               and ext = "\<lparr>Raw = None, Object = Some ()\<rparr>" and name = "''shoot1''" and cp = "sample_profile (Some (raw_config []))" and pc = "raw_config []" and raw = "[]" and zpc = "[]"]
    by (simp add: sample_cluster_def sample_shoot_def sample_profile_def lenient_scheme_def lenient_decode_def
        raw_config_def no_configuration_as_zero_def sample_ValidateCloudProfileConfig_def p)
  have w11: "GetCloudProfileConfig lenient_scheme sample_ValidateCloudProfileConfig (Some (sample_cluster (Some (sample_profile (Some (raw_config ''garbage'')))) None)) =
        Inl (Wrap (FieldErr \<lparr>Type = ErrorTypeInvalid, Field = ''cloudprofile.spec.providerConfig'',
                             BadValue = ''garbage'', Detail = ''cannot be decoded''\<rparr>)
               ''cloud profile vsphere'')"
    using decode_operations_on_payloads
            [where dec = lenient_scheme and validate = sample_ValidateCloudProfileConfig
               and cl = "sample_cluster (Some (sample_profile (Some (raw_config ''garbage'')))) None"
               and ext = "\<lparr>Raw = None, Object = Some ()\<rparr>" and name = "''shoot1''" and cp = "sample_profile (Some (raw_config ''garbage''))" and pc = "raw_config ''garbage''" and raw = "''garbage''"]
    by (simp add: sample_cluster_def sample_shoot_def sample_profile_def lenient_scheme_def lenient_decode_def
        raw_config_def no_configuration_as_zero_def sample_ValidateCloudProfileConfig_def p)
  have w12: "DecodeInfrastructureConfig lenient_scheme \<lparr>Raw = None, Object = None\<rparr> infraConfigPath = Inr []"
    using decode_operations_on_payloads
            [where dec = lenient_scheme and validate = sample_ValidateCloudProfileConfig
               and cl = "sample_cluster None (Some (sample_shoot None None None))"
               and ext = "\<lparr>Raw = None, Object = Some ()\<rparr>" and name = "''shoot1''" and cfg = "\<lparr>Raw = None, Object = None\<rparr>" and fldPath = infraConfigPath and zic = "[]"]
    by (simp add: sample_cluster_def sample_shoot_def sample_profile_def lenient_scheme_def lenient_decode_def
        raw_config_def no_configuration_as_zero_def sample_ValidateCloudProfileConfig_def p)
  have w13: "DecodeControlPlaneConfig lenient_scheme (raw_config []) cpConfigPath = Inr []"
    using decode_operations_on_payloads
            [where dec = lenient_scheme and validate = sample_ValidateCloudProfileConfig
               and cl = "sample_cluster None (Some (sample_shoot None None None))"
               and ext = "\<lparr>Raw = None, Object = Some ()\<rparr>" and name = "''shoot1''" and cfg = "raw_config []" and fldPath = cpConfigPath and zcc = "[]"]
    by (simp add: sample_cluster_def sample_shoot_def sample_profile_def lenient_scheme_def lenient_decode_def
        raw_config_def no_configuration_as_zero_def sample_ValidateCloudProfileConfig_def p)
  have w14: "DecodeCloudProfileConfig lenient_scheme (raw_config ''garbage'') providerConfigPath =
        Inl (FieldErr \<lparr>Type = ErrorTypeInvalid, Field = ''spec.providerConfig'',
                        BadValue = ''garbage'', Detail = ''cannot be decoded''\<rparr>)"
    using decode_operations_on_payloads
            [where dec = lenient_scheme and validate = sample_ValidateCloudProfileConfig
               and cl = "sample_cluster None (Some (sample_shoot None None None))"
               and ext = "\<lparr>Raw = None, Object = Some ()\<rparr>" and name = "''shoot1''" and cfg = "raw_config ''garbage''" and fldPath = providerConfigPath]
    by (simp add: sample_cluster_def sample_shoot_def sample_profile_def lenient_scheme_def lenient_decode_def
        raw_config_def no_configuration_as_zero_def sample_ValidateCloudProfileConfig_def p)
  from w1 w2 w3 w4 w5 w6 w7 w8 w9 w10 w11 w12 w13 w14 show ?thesis by simp
qed

text \<open>
  C5 as stated fails: for nil raw bytes \<open>GetCloudProfileConfig\<close> and
  \<open>GetInfrastructureStatus\<close> return no object rather than a zero value, also with a
  decoder that would decode nil bytes to the zero value.
\<close>

theorem nil_payload_yields_no_object:
  "no_configuration_as_zero (util_Decode_CloudProfileConfig lenient_scheme) []
   \<and> GetCloudProfileConfig lenient_scheme sample_ValidateCloudProfileConfig
        (Some (sample_cluster (Some (sample_profile (Some \<lparr>Raw = None, Object = None\<rparr>))) None))
      = Inr None
   \<and> no_configuration_as_zero (decoder_Decode_InfrastructureStatus lenient_scheme) []
   \<and> GetInfrastructureStatus lenient_scheme ''shoot1'' (Some \<lparr>Raw = None, Object = Some ()\<rparr>)
      = Inr None"
  by (simp add: GetCloudProfileConfig_def GetInfrastructureStatus_def sample_cluster_def
      sample_profile_def lenient_scheme_def lenient_decode_def no_configuration_as_zero_def)

subsection \<open>Synchronising the cluster resource\<close>

text \<open>
  C9.  For a shoot without seed name \<open>SyncClusterResourceToSeed\<close> returns no error
  and leaves the store as it is.
\<close>

theorem SyncClusterResourceToSeed_without_seed:
  assumes "SeedName (Spec shoot) = None"
  shows "SyncClusterResourceToSeed groupVersion c clusterName (Some shoot) cloudProfile seed
           = Return (None, c)"
  using assms by (simp add: SyncClusterResourceToSeed_def)

theorem SyncClusterResourceToSeed_without_seed_witness:
  "SyncClusterResourceToSeed ''core.gardener.cloud/v1beta1'' seed_with_cluster ''c1''
      (Some (sample_shoot None None None)) (Some (sample_profile (Some (raw_config ''{}'')))) None
     = Return (None, seed_with_cluster)"
  by (rule SyncClusterResourceToSeed_without_seed) (simp add: sample_shoot_def)

text \<open>What \<open>CreateOrUpdate\<close> and the mutation leave alone, and what they store.\<close>

lemma CreateOrUpdate_frame:
  assumes "CreateOrUpdate c obj f = (err, c')"
  shows "failing c' = failing c"
    and "err \<noteq> None \<Longrightarrow> c' = c"
    and "name \<noteq> Name (ObjectMeta obj) \<Longrightarrow> stored c' name = stored c name"
  using assms
  by (auto simp: CreateOrUpdate_def Let_def split: option.splits sum.splits if_splits)

lemma CreateOrUpdate_success:
  assumes "CreateOrUpdate c obj f = (None, c')"
  shows "\<exists>obj'. stored c' (Name (ObjectMeta obj)) = Some obj'
           \<and> f (case stored c (Name (ObjectMeta obj)) of None \<Rightarrow> obj | Some existing \<Rightarrow> existing)
               = Inr obj'"
  using assms
  by (auto simp: CreateOrUpdate_def mutate_def Let_def split: option.splits sum.splits if_splits)

lemma sync_mutation_fields:
  assumes "sync_mutation cloudProfileObj seedObj shootObj base = Inr cluster"
  shows "CloudProfile (Spec cluster) =
           (case cloudProfileObj of None \<Rightarrow> CloudProfile (Spec base)
            | Some obj \<Rightarrow> \<lparr>Raw = None, Object = Some obj\<rparr>)"
    and "Seed (Spec cluster) =
           (case seedObj of None \<Rightarrow> Seed (Spec base)
            | Some obj \<Rightarrow> \<lparr>Raw = None, Object = Some obj\<rparr>)"
    and "Shoot (Spec cluster) =
           (case shootObj of None \<Rightarrow> Shoot (Spec base)
            | Some obj \<Rightarrow> \<lparr>Raw = None, Object = Some obj\<rparr>)"
    and "TypeMeta cluster = TypeMeta base"
    and "ObjectMeta cluster = ObjectMeta base"
  using assms
  by (auto simp: sync_mutation_def Let_def split: option.splits)

text \<open>
  C8, as the code has it.  For a shoot with a seed name, a successful call leaves a
  cluster resource under the given name whose shoot is the copy of the given shoot, and
  whose cloud profile and seed are the copies of the given objects where these are given
  and otherwise what was stored before (nothing, if the resource is new).  A failed call
  leaves the store as it is, and no other resource is ever touched.
\<close>

theorem SyncClusterResourceToSeed_upsert:
  assumes "SeedName (Spec shoot) \<noteq> None"
      and "SyncClusterResourceToSeed groupVersion c clusterName (Some shoot) cloudProfile seed
             = Return (err, c')"
  shows "(err = None \<longrightarrow>
            (\<exists>cluster. stored c' clusterName = Some cluster
               \<and> Shoot (Spec cluster) =
                   \<lparr>Raw = None, Object = Some (with_type groupVersion ''Shoot'' shoot)\<rparr>
               \<and> CloudProfile (Spec cluster) =
                   (case cloudProfile of
                      Some obj \<Rightarrow> \<lparr>Raw = None, Object = Some (with_type groupVersion ''CloudProfile'' obj)\<rparr>
                    | None \<Rightarrow>
                        (case stored c clusterName of
                           Some existing \<Rightarrow> CloudProfile (Spec existing)
                         | None \<Rightarrow> no_extension))
               \<and> Seed (Spec cluster) =
                   (case seed of
                      Some obj \<Rightarrow> \<lparr>Raw = None, Object = Some (with_type groupVersion ''Seed'' obj)\<rparr>
                    | None \<Rightarrow>
                        (case stored c clusterName of
                           Some existing \<Rightarrow> Seed (Spec existing)
                         | None \<Rightarrow> no_extension))))
         \<and> (err \<noteq> None \<longrightarrow> c' = c)
         \<and> (\<forall>name. name \<noteq> clusterName \<longrightarrow> stored c' name = stored c name)
         \<and> failing c' = failing c"
proof -
  let ?f = "sync_mutation
              (case cloudProfile of None \<Rightarrow> None
               | Some obj \<Rightarrow> Some (with_type groupVersion ''CloudProfile'' obj))
              (case seed of None \<Rightarrow> None | Some obj \<Rightarrow> Some (with_type groupVersion ''Seed'' obj))
              (Some (with_type groupVersion ''Shoot'' shoot))"
  let ?new = "new_Cluster clusterName :: ('a, 'b) ClusterResource"
  from assms have cu: "CreateOrUpdate c ?new ?f = (err, c')"
    by (cases "SeedName (Spec shoot)") (simp_all add: SyncClusterResourceToSeed_def Let_def)
  have name: "Name (ObjectMeta ?new) = clusterName"
    by (simp add: new_Cluster_def)
  have spec: "Spec ?new = \<lparr>CloudProfile = no_extension, Seed = no_extension, Shoot = no_extension\<rparr>"
    by (simp add: new_Cluster_def)
  have frame: "failing c' = failing c" "err \<noteq> None \<longrightarrow> c' = c"
      "\<forall>name. name \<noteq> clusterName \<longrightarrow> stored c' name = stored c name"
    using CreateOrUpdate_frame [OF cu] name by auto
  have ok: "\<exists>cluster. stored c' clusterName = Some cluster
               \<and> Shoot (Spec cluster) =
                   \<lparr>Raw = None, Object = Some (with_type groupVersion ''Shoot'' shoot)\<rparr>
               \<and> CloudProfile (Spec cluster) =
                   (case cloudProfile of
                      Some obj \<Rightarrow> \<lparr>Raw = None, Object = Some (with_type groupVersion ''CloudProfile'' obj)\<rparr>
                    | None \<Rightarrow>
                        (case stored c clusterName of
                           Some existing \<Rightarrow> CloudProfile (Spec existing)
                         | None \<Rightarrow> no_extension))
               \<and> Seed (Spec cluster) =
                   (case seed of
                      Some obj \<Rightarrow> \<lparr>Raw = None, Object = Some (with_type groupVersion ''Seed'' obj)\<rparr>
                    | None \<Rightarrow>
                        (case stored c clusterName of
                           Some existing \<Rightarrow> Seed (Spec existing)
                         | None \<Rightarrow> no_extension))" if "err = None"
  proof -
    from cu that have "CreateOrUpdate c ?new ?f = (None, c')" by simp
    from CreateOrUpdate_success [OF this] name
    obtain cluster where st: "stored c' clusterName = Some cluster"
      and f: "?f (case stored c clusterName of None \<Rightarrow> ?new | Some existing \<Rightarrow> existing)
                = Inr cluster"
      by auto
    note flds = sync_mutation_fields [OF f]
    from flds(3) have "Shoot (Spec cluster) =
        \<lparr>Raw = None, Object = Some (with_type groupVersion ''Shoot'' shoot)\<rparr>"
      by simp
    moreover from flds(1) spec have "CloudProfile (Spec cluster) =
                   (case cloudProfile of
                      Some obj \<Rightarrow> \<lparr>Raw = None, Object = Some (with_type groupVersion ''CloudProfile'' obj)\<rparr>
                    | None \<Rightarrow>
                        (case stored c clusterName of
                           Some existing \<Rightarrow> CloudProfile (Spec existing)
                         | None \<Rightarrow> no_extension))"
      by (simp split: option.splits)
    moreover from flds(2) spec have "Seed (Spec cluster) =
                   (case seed of
                      Some obj \<Rightarrow> \<lparr>Raw = None, Object = Some (with_type groupVersion ''Seed'' obj)\<rparr>
                    | None \<Rightarrow>
                        (case stored c clusterName of
                           Some existing \<Rightarrow> Seed (Spec existing)
                         | None \<Rightarrow> no_extension))"
      by (simp split: option.splits)
    ultimately show ?thesis using st by simp
  qed
  from ok frame show ?thesis by blast
qed

theorem SyncClusterResourceToSeed_upsert_witness:
  "\<exists>c'. SyncClusterResourceToSeed ''core.gardener.cloud/v1beta1'' seed_with_cluster ''c1''
            (Some (sample_shoot None None (Some ''seed1''))) None None = Return (None, c')
        \<and> (\<exists>cluster. stored c' ''c1'' = Some cluster
              \<and> Shoot (Spec cluster) =
                  \<lparr>Raw = None,
                   Object = Some (with_type ''core.gardener.cloud/v1beta1'' ''Shoot''
                                    (sample_shoot None None (Some ''seed1'')))\<rparr>
              \<and> CloudProfile (Spec cluster) = \<lparr>Raw = None, Object = Some (sample_profile None)\<rparr>
              \<and> Seed (Spec cluster) = no_extension)
        \<and> stored c' ''c2'' = None"
proof -
  let ?r = "SyncClusterResourceToSeed ''core.gardener.cloud/v1beta1'' seed_with_cluster ''c1''
            (Some (sample_shoot None None (Some ''seed1''))) None None"
  have seed: "SeedName (Spec (sample_shoot None None (Some ''seed1''))) \<noteq> None"
    by (simp add: sample_shoot_def)
  obtain c' where r: "?r = Return (None, c')"
    by (simp add: SyncClusterResourceToSeed_def CreateOrUpdate_def mutate_def sync_mutation_def
        new_Cluster_def seed_with_cluster_def sample_shoot_def no_extension_def with_type_def Let_def)
  from SyncClusterResourceToSeed_upsert [OF seed r] r show ?thesis
    by (simp add: seed_with_cluster_def)
qed

text \<open>
  C8 as stated fails: for a shoot without seed name no create-or-update takes place,
  and a cluster resource that does not exist yet is not created although a shoot and a
  cloud profile are given.
\<close>

theorem SyncClusterResourceToSeed_not_performed_without_seed:
  "SyncClusterResourceToSeed ''core.gardener.cloud/v1beta1'' empty_seed ''c1''
      (Some (sample_shoot None None None)) (Some (sample_profile None)) None
     = Return (None, empty_seed)
   \<and> stored empty_seed ''c1'' = None"
  by (simp add: SyncClusterResourceToSeed_def sample_shoot_def empty_seed_def)

end
